theory Spec2Isabelle
  imports Complex_Main
begin

section \<open>Errors, requests and users\<close>

text \<open>
  The exceptions the views and serializers can raise. \<open>ValidationError\<close> is answered
  with status 400, \<open>Http404\<close> with 404 and \<open>PermissionDenied\<close> with 403.
  \<open>IntegrityError\<close> is the storage layer refusing a row that breaks a constraint of
  \<^verbatim>\<open>reviews/models.py\<close>; \<open>MultipleObjectsReturned\<close> is a lookup for one row that
  finds several; \<open>AttributeError\<close> is the read of \<^verbatim>\<open>is_admin\<close> on the anonymous user.
  None of the last three is caught by the views.
\<close>

datatype error =
    ValidationError
  | Http404
  | PermissionDenied
  | IntegrityError
  | MultipleObjectsReturned
  | AttributeError

datatype http_method = GET | HEAD | OPTIONS | POST | PUT | PATCH | DELETE

definition SAFE_METHODS :: "http_method list" where
  "SAFE_METHODS = [GET, HEAD, OPTIONS]"

text \<open>The three role strings of \<^verbatim>\<open>User\<close> and its \<^verbatim>\<open>ROLES\<close> choices.\<close>

definition ADMIN :: string where "ADMIN = ''admin''"
definition MODERATOR :: string where "MODERATOR = ''moderator''"
definition USER :: string where "USER = ''user''"

definition ROLES :: "string list" where
  "ROLES = [ADMIN, MODERATOR, USER]"

record user =
  pk :: nat
  username :: string
  email :: string
  first_name :: string
  last_name :: string
  bio :: "string option"
  role :: string
  confirmation_code :: string
  is_superuser :: bool

definition is_moderator :: "user \<Rightarrow> bool" where
  "is_moderator u = (role u = MODERATOR)"

definition is_admin :: "user \<Rightarrow> bool" where
  "is_admin u = (role u = ADMIN)"

text \<open>
  A request carries its method and \<^verbatim>\<open>request.user\<close>: \<open>None\<close> is the anonymous user
  (\<^verbatim>\<open>is_authenticated\<close> false), \<open>Some u\<close> the stored user the token identifies.
\<close>

record request =
  request_method :: http_method
  actor :: "user option"

definition is_authenticated :: "request \<Rightarrow> bool" where
  "is_authenticated r = (actor r \<noteq> None)"

section \<open>Permission classes (api/permissions.py)\<close>

datatype permission =
    IsAdmin
  | IsAdminOrReadOnly
  | IsStaffOrAuthorOrReadOnly
  | IsAuthenticated

fun has_permission :: "permission \<Rightarrow> request \<Rightarrow> bool" where
  "has_permission IsAdmin r =
     (case actor r of None \<Rightarrow> False
      | Some u \<Rightarrow> is_admin u \<or> is_superuser u)"
| "has_permission IsAdminOrReadOnly r =
     (if request_method r \<in> set SAFE_METHODS then True
      else (case actor r of None \<Rightarrow> False
            | Some u \<Rightarrow> is_admin u \<or> is_superuser u))"
| "has_permission IsStaffOrAuthorOrReadOnly r =
     (request_method r \<in> set SAFE_METHODS \<or> is_authenticated r)"
| "has_permission IsAuthenticated r = is_authenticated r"

text \<open>
  The object-level check takes the primary key of \<^verbatim>\<open>obj.author\<close>; two model instances
  are equal when their primary keys are. Only \<^verbatim>\<open>IsStaffOrAuthorOrReadOnly\<close> overrides
  the check, the other classes inherit the one that always allows. Reading
  \<^verbatim>\<open>is_admin\<close> on the anonymous user raises, after \<^verbatim>\<open>is_superuser\<close> was read as false.
\<close>

fun has_object_permission :: "permission \<Rightarrow> request \<Rightarrow> nat \<Rightarrow> error + bool" where
  "has_object_permission IsStaffOrAuthorOrReadOnly r author_pk =
     (if request_method r \<in> set SAFE_METHODS then Inr True
      else (case actor r of None \<Rightarrow> Inl AttributeError
            | Some u \<Rightarrow>
                Inr (is_superuser u \<or> is_admin u \<or> is_moderator u \<or> author_pk = pk u)))"
| "has_object_permission _ r author_pk = Inr True"

section \<open>View sets and their permission classes (api/views.py)\<close>

datatype viewset =
    UserViewSet
  | CategoryViewSet
  | GenriesViewSet
  | TitlesViewSet
  | ReviewViewSet
  | CommentViewSet

fun permission_classes :: "viewset \<Rightarrow> permission list" where
  "permission_classes UserViewSet = [IsAdmin]"
| "permission_classes CategoryViewSet = [IsAdminOrReadOnly]"
| "permission_classes GenriesViewSet = [IsAdminOrReadOnly]"
| "permission_classes TitlesViewSet = [IsAdminOrReadOnly]"
| "permission_classes ReviewViewSet = [IsStaffOrAuthorOrReadOnly]"
| "permission_classes CommentViewSet = [IsStaffOrAuthorOrReadOnly]"

text \<open>
  The framework asks every class of the view in turn and refuses the request at the first
  one that answers false: once for the request, before the handler runs, and once for the
  object a detail route has fetched.
\<close>

fun check_permissions :: "permission list \<Rightarrow> request \<Rightarrow> error + unit" where
  "check_permissions [] r = Inr ()"
| "check_permissions (p # ps) r =
     (if has_permission p r then check_permissions ps r else Inl PermissionDenied)"

fun check_object_permissions :: "permission list \<Rightarrow> request \<Rightarrow> nat \<Rightarrow> error + unit" where
  "check_object_permissions [] r author_pk = Inr ()"
| "check_object_permissions (p # ps) r author_pk =
     (case has_object_permission p r author_pk of
        Inl e \<Rightarrow> Inl e
      | Inr ok \<Rightarrow>
          if ok then check_object_permissions ps r author_pk else Inl PermissionDenied)"

text \<open>
  The decision for an action on a fetched review or comment: the request-level gate,
  then the object-level gate.
\<close>

definition authorize_object :: "viewset \<Rightarrow> request \<Rightarrow> nat \<Rightarrow> error + unit" where
  "authorize_object v r author_pk =
     (case check_permissions (permission_classes v) r of
        Inl e \<Rightarrow> Inl e
      | Inr _ \<Rightarrow> check_object_permissions (permission_classes v) r author_pk)"

section \<open>Stored rows (reviews/models.py)\<close>

record category =
  category_pk :: nat
  category_name :: string
  category_slug :: string

record genre =
  genre_pk :: nat
  genre_name :: string
  genre_slug :: string

text \<open>
  A title keeps the key of its category (null when it has none) and the keys of its
  genres. \<open>rating\<close> is the stored column, default 10.
\<close>

record title =
  title_pk :: nat
  name :: string
  year :: int
  category_id :: "nat option"
  genre_ids :: "nat list"
  rating :: int
  description :: "string option"

record review =
  review_pk :: nat
  title_id :: nat
  text_of :: string
  author_id :: nat
  score :: int
  pub_date :: nat

record mail =
  subject :: string
  message :: string
  recipient_list :: "string list"

text \<open>
  The persistent store, one list of rows for each table, and the mails handed to the
  mail transport so far.
\<close>

record store =
  users :: "user list"
  categories :: "category list"
  genres :: "genre list"
  titles :: "title list"
  reviews :: "review list"
  outbox :: "mail list"

text \<open>The key the storage layer gives a new row: one more than the largest in use.\<close>

definition new_pk :: "nat list \<Rightarrow> nat" where
  "new_pk ks = Suc (foldr max ks 0)"

text \<open>
  \<^verbatim>\<open>get_object_or_404\<close>: the one row that satisfies the lookup, \<open>Http404\<close> when there is
  none. The underlying \<^verbatim>\<open>get\<close> raises when there are several.
\<close>

definition get_object_or_404 :: "'a list \<Rightarrow> ('a \<Rightarrow> bool) \<Rightarrow> error + 'a" where
  "get_object_or_404 rows cond =
     (case filter cond rows of
        [] \<Rightarrow> Inl Http404
      | [x] \<Rightarrow> Inr x
      | _ \<Rightarrow> Inl MultipleObjectsReturned)"

section \<open>Strings\<close>

text \<open>
  \<^verbatim>\<open>str.lower()\<close> on ASCII text: the capitals A to Z go to their small letters, every
  other character stays.
\<close>

definition lower_char :: "char \<Rightarrow> char" where
  "lower_char c =
     (case map_of (zip ''ABCDEFGHIJKLMNOPQRSTUVWXYZ'' ''abcdefghijklmnopqrstuvwxyz'') c of
        None \<Rightarrow> c
      | Some d \<Rightarrow> d)"

definition lower :: "string \<Rightarrow> string" where
  "lower s = map lower_char s"

section \<open>Request data and field validation\<close>

text \<open>
  A key of the request data as a serializer field sees it: \<open>Absent\<close> when the key is not
  in the data, \<open>Malformed\<close> when the field class itself refuses the raw value (wrong type,
  blank text, bad e-mail syntax, too long), \<open>Given v\<close> when the field class has parsed it
  to \<open>v\<close> and hands \<open>v\<close> to the validators of the source.
\<close>

datatype 'a field = Absent | Malformed | Given 'a

text \<open>
  What a field yields before its validators run. A required field that is absent is an
  error; an optional one (with a model default, or under \<^verbatim>\<open>partial=True\<close>) is skipped.
\<close>

fun field_value :: "bool \<Rightarrow> 'a field \<Rightarrow> error + 'a option" where
  "field_value required Absent = (if required then Inl ValidationError else Inr None)"
| "field_value required Malformed = Inl ValidationError"
| "field_value required (Given v) = Inr (Some v)"

text \<open>
  \<^verbatim>\<open>UniqueValidator(queryset=...)\<close> with its default exact lookup: the value must not be
  the column's value in any row of the queryset.
\<close>

definition UniqueValidator :: "'a list \<Rightarrow> 'a \<Rightarrow> error + unit" where
  "UniqueValidator column val =
     (if val \<in> set column then Inl ValidationError else Inr ())"

text \<open>
  Runs the validators of one field over its value, in order, and stops at the first that
  raises.
\<close>

fun run_validators :: "('a \<Rightarrow> error + unit) list \<Rightarrow> 'a \<Rightarrow> error + unit" where
  "run_validators [] v = Inr ()"
| "run_validators (f # fs) v =
     (case f v of Inl e \<Rightarrow> Inl e | Inr _ \<Rightarrow> run_validators fs v)"

text \<open>
  One field of a serializer: the field class, then the validators on the value if there
  is one.
\<close>

definition run_field ::
  "bool \<Rightarrow> ('a \<Rightarrow> error + unit) list \<Rightarrow> 'a field \<Rightarrow> error + 'a option" where
  "run_field required validators f =
     (case field_value required f of
        Inl e \<Rightarrow> Inl e
      | Inr None \<Rightarrow> Inr None
      | Inr (Some v) \<Rightarrow>
          (case run_validators validators v of
             Inl e \<Rightarrow> Inl e
           | Inr _ \<Rightarrow> Inr (Some v)))"

text \<open>\<^verbatim>\<open>MinValueValidator\<close> and \<^verbatim>\<open>MaxValueValidator\<close>.\<close>

definition MinValueValidator :: "int \<Rightarrow> int \<Rightarrow> error + unit" where
  "MinValueValidator limit val = (if val < limit then Inl ValidationError else Inr ())"

definition MaxValueValidator :: "int \<Rightarrow> int \<Rightarrow> error + unit" where
  "MaxValueValidator limit val = (if val > limit then Inl ValidationError else Inr ())"

section \<open>Users: storage constraints\<close>

text \<open>
  A new \<^verbatim>\<open>User\<close> row before any attribute is set: the defaults of the model fields.
\<close>

definition default_user :: user where
  "default_user = \<lparr>pk = 0, username = '''', email = '''', first_name = '''',
     last_name = '''', bio = None, role = USER, confirmation_code = '''',
     is_superuser = False\<rparr>"

text \<open>
  The check constraint \<^verbatim>\<open>username_is_not_me\<close> of \<^verbatim>\<open>User.Meta\<close>: the username does not
  match \<^verbatim>\<open>me\<close> when letter case is ignored.
\<close>

definition username_is_not_me :: "user \<Rightarrow> bool" where
  "username_is_not_me u = (lower (username u) \<noteq> lower ''me'')"

text \<open>
  Writing a user row. The storage layer refuses a row that breaks the check constraint or
  repeats the username of another row (the username column of the base user model is
  unique); it does not look at the e-mail column.
\<close>

definition insert_user :: "user list \<Rightarrow> user \<Rightarrow> error + (user \<times> user list)" where
  "insert_user us u =
     (let row = u\<lparr>pk := new_pk (map pk us)\<rparr>
      in if \<not> username_is_not_me row then Inl IntegrityError
         else if username row \<in> set (map username us) then Inl IntegrityError
         else Inr (row, us @ [row]))"

definition update_user :: "user list \<Rightarrow> user \<Rightarrow> error + user list" where
  "update_user us u =
     (if \<not> username_is_not_me u then Inl IntegrityError
      else if username u \<in> set (map username (filter (\<lambda>x. pk x \<noteq> pk u) us))
        then Inl IntegrityError
      else Inr (map (\<lambda>x. if pk x = pk u then u else x) us))"

section \<open>Users: serializers (api/serializers.py)\<close>

text \<open>
  The validated data of a user serializer: for each attribute, the value to set, or
  \<open>None\<close> when the serializer has no value for it.
\<close>

record user_attrs =
  a_username :: "string option"
  a_email :: "string option"
  a_first_name :: "string option"
  a_last_name :: "string option"
  a_bio :: "string option option"
  a_role :: "string option"

definition set_user_attrs :: "user_attrs \<Rightarrow> user \<Rightarrow> user" where
  "set_user_attrs a u =
     u\<lparr>username := (case a_username a of None \<Rightarrow> username u | Some v \<Rightarrow> v),
       email := (case a_email a of None \<Rightarrow> email u | Some v \<Rightarrow> v),
       first_name := (case a_first_name a of None \<Rightarrow> first_name u | Some v \<Rightarrow> v),
       last_name := (case a_last_name a of None \<Rightarrow> last_name u | Some v \<Rightarrow> v),
       bio := (case a_bio a of None \<Rightarrow> bio u | Some v \<Rightarrow> v),
       role := (case a_role a of None \<Rightarrow> role u | Some v \<Rightarrow> v)\<rparr>"

text \<open>
  A serializer runs all its fields and raises one \<open>ValidationError\<close> if any of them
  failed. \<open>failed\<close> tells whether a field did, \<open>validated\<close> reads its value.
\<close>

definition failed :: "error + 'a \<Rightarrow> bool" where
  "failed x = (case x of Inl _ \<Rightarrow> True | Inr _ \<Rightarrow> False)"

definition validated :: "error + 'a option \<Rightarrow> 'a option" where
  "validated x = (case x of Inl _ \<Rightarrow> None | Inr v \<Rightarrow> v)"

record signup_data =
  su_username :: "string field"
  su_email :: "string field"

definition validate_username :: "string \<Rightarrow> error + string" where
  "validate_username val =
     (if lower val = ''me'' then Inl ValidationError else Inr val)"

text \<open>
  The \<^verbatim>\<open>username\<close> field of \<^verbatim>\<open>SignUpSerializer\<close>: the field with its
  \<^verbatim>\<open>UniqueValidator\<close>, then \<^verbatim>\<open>validate_username\<close> on the value.
\<close>

definition SignUpSerializer_username ::
  "user list \<Rightarrow> string field \<Rightarrow> error + string option" where
  "SignUpSerializer_username us f =
     (case run_field True [UniqueValidator (map username us)] f of
        Inl e \<Rightarrow> Inl e
      | Inr None \<Rightarrow> Inr None
      | Inr (Some v) \<Rightarrow>
          (case validate_username v of Inl e \<Rightarrow> Inl e | Inr w \<Rightarrow> Inr (Some w)))"

definition SignUpSerializer_is_valid :: "user list \<Rightarrow> signup_data \<Rightarrow> error + user_attrs" where
  "SignUpSerializer_is_valid us d =
     (let fu = SignUpSerializer_username us (su_username d);
          fe = run_field True [UniqueValidator (map email us)] (su_email d)
      in if failed fu \<or> failed fe then Inl ValidationError
         else Inr \<lparr>a_username = validated fu, a_email = validated fe,
                   a_first_name = None, a_last_name = None, a_bio = None,
                   a_role = None\<rparr>)"

record user_data =
  ud_username :: "string field"
  ud_email :: "string field"
  ud_first_name :: "string field"
  ud_last_name :: "string field"
  ud_bio :: "string option field"
  ud_role :: "string field"

text \<open>A choice field takes only one of its choices.\<close>

definition valid_choice :: "'a list \<Rightarrow> 'a \<Rightarrow> error + unit" where
  "valid_choice choices val =
     (if val \<in> set choices then Inr () else Inl ValidationError)"

text \<open>
  \<^verbatim>\<open>UserSerializer\<close>: \<^verbatim>\<open>username\<close> and \<^verbatim>\<open>email\<close> are declared with a
  \<^verbatim>\<open>UniqueValidator\<close>; the other fields come from the model. It has no
  \<^verbatim>\<open>validate_username\<close>.
\<close>

definition UserSerializer_is_valid :: "user list \<Rightarrow> user_data \<Rightarrow> error + user_attrs" where
  "UserSerializer_is_valid us d =
     (let fu = run_field True [UniqueValidator (map username us)] (ud_username d);
          fe = run_field True [UniqueValidator (map email us)] (ud_email d);
          ff = run_field False [] (ud_first_name d);
          fl = run_field False [] (ud_last_name d);
          fb = run_field False [] (ud_bio d);
          fr = run_field False [valid_choice ROLES] (ud_role d)
      in if failed fu \<or> failed fe \<or> failed ff \<or> failed fl \<or> failed fb \<or> failed fr
         then Inl ValidationError
         else Inr \<lparr>a_username = validated fu, a_email = validated fe,
                   a_first_name = validated ff, a_last_name = validated fl,
                   a_bio = validated fb, a_role = validated fr\<rparr>)"

text \<open>
  \<^verbatim>\<open>UserEditSerializer\<close> as \<^verbatim>\<open>patch_own_profile\<close> uses it, on the instance
  \<open>usr\<close> with \<^verbatim>\<open>partial=True\<close>: every field comes from the model, so \<^verbatim>\<open>username\<close>
  carries the model's uniqueness check, which leaves the instance itself out; a username
  that the model's character and length rules refuse counts as \<open>Malformed\<close>.
  \<^verbatim>\<open>role\<close> is in \<^verbatim>\<open>read_only_fields\<close>: its key of the request data is never read.
\<close>

definition UserEditSerializer_is_valid ::
  "user list \<Rightarrow> user \<Rightarrow> user_data \<Rightarrow> error + user_attrs" where
  "UserEditSerializer_is_valid us usr d =
     (let others = filter (\<lambda>x. pk x \<noteq> pk usr) us;
          fu = run_field False [UniqueValidator (map username others)] (ud_username d);
          fe = run_field False [] (ud_email d);
          ff = run_field False [] (ud_first_name d);
          fl = run_field False [] (ud_last_name d);
          fb = run_field False [] (ud_bio d)
      in if failed fu \<or> failed fe \<or> failed ff \<or> failed fl \<or> failed fb
         then Inl ValidationError
         else Inr \<lparr>a_username = validated fu, a_email = validated fe,
                   a_first_name = validated ff, a_last_name = validated fl,
                   a_bio = validated fb, a_role = None\<rparr>)"

section \<open>Users: views (api/views.py)\<close>

text \<open>
  Every handler takes the store and returns its outcome with the store it leaves: the
  status and body of the response, or the exception raised.
\<close>

text \<open>
  The mail \<^verbatim>\<open>register\<close> sends. \<open>make_token\<close> is the confirmation-code generator of the
  framework, a function of the user row.
\<close>

definition confirmation_mail :: "(user \<Rightarrow> string) \<Rightarrow> user \<Rightarrow> mail" where
  "confirmation_mail make_token usr =
     \<lparr>subject = ''Registration'', message = ''Confirmation code: '' @ make_token usr,
      recipient_list = [email usr]\<rparr>"

text \<open>
  \<^verbatim>\<open>register\<close>: validate, save, look the saved user up by username and e-mail, send
  the code, answer with the serializer's data.
\<close>

definition register ::
  "(user \<Rightarrow> string) \<Rightarrow> store \<Rightarrow> signup_data \<Rightarrow> (error + nat \<times> string \<times> string) \<times> store" where
  "register make_token st d =
     (case SignUpSerializer_is_valid (users st) d of
        Inl e \<Rightarrow> (Inl e, st)
      | Inr a \<Rightarrow>
          (case insert_user (users st) (set_user_attrs a default_user) of
             Inl e \<Rightarrow> (Inl e, st)
           | Inr (row, us') \<Rightarrow>
               (let st' = st\<lparr>users := us'\<rparr>
                in case get_object_or_404 us'
                          (\<lambda>x. username x = username row \<and> email x = email row) of
                     Inl e \<Rightarrow> (Inl e, st')
                   | Inr usr \<Rightarrow>
                       (Inr (200, username row, email row),
                        st'\<lparr>outbox := outbox st' @ [confirmation_mail make_token usr]\<rparr>))))"


record token_data =
  tk_username :: "string field"
  tk_confirmation_code :: "string field"

datatype token_body = Token string | Errors

text \<open>
  \<^verbatim>\<open>GetTokenSerializer\<close> declares both of its fields itself, as plain text fields
  without validators.
\<close>

definition GetTokenSerializer_is_valid :: "token_data \<Rightarrow> error + string \<times> string" where
  "GetTokenSerializer_is_valid d =
     (case (run_field True [] (tk_username d), run_field True [] (tk_confirmation_code d)) of
        (Inr (Some u), Inr (Some c)) \<Rightarrow> Inr (u, c)
      | _ \<Rightarrow> Inl ValidationError)"

text \<open>
  \<^verbatim>\<open>get_jwt_token\<close>. \<open>check_token\<close> is the framework's verification of a confirmation
  code against a user row, \<open>for_user\<close> the minting of an access token; the handler writes
  nothing.
\<close>

definition get_jwt_token ::
  "(user \<Rightarrow> string \<Rightarrow> bool) \<Rightarrow> (user \<Rightarrow> string) \<Rightarrow> store \<Rightarrow> token_data
     \<Rightarrow> error + nat \<times> token_body" where
  "get_jwt_token check_token for_user st d =
     (case GetTokenSerializer_is_valid d of
        Inl e \<Rightarrow> Inl e
      | Inr (u, c) \<Rightarrow>
          (case get_object_or_404 (users st) (\<lambda>x. username x = u) of
             Inl e \<Rightarrow> Inl e
           | Inr usr \<Rightarrow>
               if check_token usr c then Inr (200, Token (for_user usr))
               else Inr (400, Errors)))"

text \<open>\<^verbatim>\<open>UserViewSet.create\<close>, the handler of POST on the user collection.\<close>

definition create_user :: "store \<Rightarrow> request \<Rightarrow> user_data \<Rightarrow> (error + nat \<times> user) \<times> store" where
  "create_user st r d =
     (case check_permissions (permission_classes UserViewSet) r of
        Inl e \<Rightarrow> (Inl e, st)
      | Inr _ \<Rightarrow>
          (case UserSerializer_is_valid (users st) d of
             Inl e \<Rightarrow> (Inl e, st)
           | Inr a \<Rightarrow>
               (case insert_user (users st) (set_user_attrs a default_user) of
                  Inl e \<Rightarrow> (Inl e, st)
                | Inr (row, us') \<Rightarrow> (Inr (201, row), st\<lparr>users := us'\<rparr>))))"

text \<open>
  \<^verbatim>\<open>UserViewSet.patch_own_profile\<close>, behind \<^verbatim>\<open>IsAuthenticated\<close>. The instance is
  \<^verbatim>\<open>request.user\<close>; saving it writes the row with its primary key.
\<close>

definition patch_own_profile ::
  "store \<Rightarrow> request \<Rightarrow> user_data \<Rightarrow> (error + nat \<times> user) \<times> store" where
  "patch_own_profile st r d =
     (case check_permissions [IsAuthenticated] r of
        Inl e \<Rightarrow> (Inl e, st)
      | Inr _ \<Rightarrow>
          (case actor r of
             None \<Rightarrow> (Inl PermissionDenied, st)
           | Some usr \<Rightarrow>
               (case UserEditSerializer_is_valid (users st) usr d of
                  Inl e \<Rightarrow> (Inl e, st)
                | Inr a \<Rightarrow>
                    (case update_user (users st) (set_user_attrs a usr) of
                       Inl e \<Rightarrow> (Inl e, st)
                     | Inr us' \<Rightarrow> (Inr (200, set_user_attrs a usr), st\<lparr>users := us'\<rparr>)))))"

section \<open>Titles: serializer and write handlers\<close>

record title_data =
  td_name :: "string field"
  td_year :: "int field"
  td_category :: "string field"
  td_genre :: "string list field"
  td_rating :: "int field"
  td_description :: "string option field"

record title_attrs =
  t_name :: "string option"
  t_year :: "int option"
  t_category :: "nat option"
  t_genre :: "nat list option"
  t_rating :: "int option"
  t_description :: "string option option"

text \<open>
  \<^verbatim>\<open>max_value_current_year\<close> of \<^verbatim>\<open>reviews/models.py\<close>, a validator of
  \<^verbatim>\<open>Title.year\<close>. \<open>current_year\<close> is what \<^verbatim>\<open>current_year()\<close> returns when the validator
  runs, the year of the request.
\<close>

definition max_value_current_year :: "int \<Rightarrow> int \<Rightarrow> error + unit" where
  "max_value_current_year current_year val = MaxValueValidator current_year val"

text \<open>
  \<^verbatim>\<open>TitlesViewSet.validate\<close>, the same test written as a method of the view set. No
  handler and no serializer calls a method of that name on a view set.
\<close>

definition TitlesViewSet_validate :: "int \<Rightarrow> int \<Rightarrow> error + int" where
  "TitlesViewSet_validate current_year data_year =
     (if data_year > current_year then Inl ValidationError else Inr data_year)"

text \<open>
  A \<^verbatim>\<open>SlugRelatedField\<close> with a queryset: the row whose slug is the given text, an
  error when there is none. Slugs are unique in their table.
\<close>

definition slug_related :: "'a list \<Rightarrow> ('a \<Rightarrow> string) \<Rightarrow> ('a \<Rightarrow> nat) \<Rightarrow> string \<Rightarrow> error + nat" where
  "slug_related rows slug_of pk_of s =
     (case filter (\<lambda>x. slug_of x = s) rows of
        [] \<Rightarrow> Inl ValidationError
      | x # _ \<Rightarrow> Inr (pk_of x))"

fun slug_related_many :: "(string \<Rightarrow> error + nat) \<Rightarrow> string list \<Rightarrow> error + nat list" where
  "slug_related_many resolve [] = Inr []"
| "slug_related_many resolve (s # ss) =
     (case resolve s of
        Inl e \<Rightarrow> Inl e
      | Inr k \<Rightarrow>
          (case slug_related_many resolve ss of
             Inl e \<Rightarrow> Inl e
           | Inr ks \<Rightarrow> Inr (k # ks)))"

definition related_field ::
  "bool \<Rightarrow> ('a \<Rightarrow> error + 'b) \<Rightarrow> 'a field \<Rightarrow> error + 'b option" where
  "related_field required resolve f =
     (case field_value required f of
        Inl e \<Rightarrow> Inl e
      | Inr None \<Rightarrow> Inr None
      | Inr (Some s) \<Rightarrow>
          (case resolve s of Inl e \<Rightarrow> Inl e | Inr k \<Rightarrow> Inr (Some k)))"

text \<open>
  \<^verbatim>\<open>TitlesSerializer\<close>, all fields of the model: \<^verbatim>\<open>genre\<close> and \<^verbatim>\<open>category\<close> are
  declared as slug fields, the others come from the model with its validators, so
  \<^verbatim>\<open>year\<close> carries \<^verbatim>\<open>MinValueValidator(0)\<close> and \<^verbatim>\<open>max_value_current_year\<close>.
  \<^verbatim>\<open>year\<close>, \<^verbatim>\<open>rating\<close> and \<^verbatim>\<open>description\<close> have a default or are nullable, hence
  optional; under \<open>partial\<close> every field is.
\<close>

definition TitlesSerializer_is_valid ::
  "int \<Rightarrow> store \<Rightarrow> bool \<Rightarrow> title_data \<Rightarrow> error + title_attrs" where
  "TitlesSerializer_is_valid current_year st partial d =
     (let fn = run_field (\<not> partial) [] (td_name d);
          fy = run_field False [MinValueValidator 0, max_value_current_year current_year]
                 (td_year d);
          fc = related_field (\<not> partial)
                 (slug_related (categories st) category_slug category_pk) (td_category d);
          fg = related_field (\<not> partial)
                 (slug_related_many (slug_related (genres st) genre_slug genre_pk))
                 (td_genre d);
          fr = run_field False [MinValueValidator 1, MaxValueValidator 10] (td_rating d);
          fd = run_field False [] (td_description d)
      in if failed fn \<or> failed fy \<or> failed fc \<or> failed fg \<or> failed fr \<or> failed fd
         then Inl ValidationError
         else Inr \<lparr>t_name = validated fn, t_year = validated fy, t_category = validated fc,
                   t_genre = validated fg, t_rating = validated fr,
                   t_description = validated fd\<rparr>)"

definition set_title_attrs :: "title_attrs \<Rightarrow> title \<Rightarrow> title" where
  "set_title_attrs a t =
     t\<lparr>name := (case t_name a of None \<Rightarrow> name t | Some v \<Rightarrow> v),
       year := (case t_year a of None \<Rightarrow> year t | Some v \<Rightarrow> v),
       category_id := (case t_category a of None \<Rightarrow> category_id t | Some v \<Rightarrow> Some v),
       genre_ids := (case t_genre a of None \<Rightarrow> genre_ids t | Some v \<Rightarrow> v),
       rating := (case t_rating a of None \<Rightarrow> rating t | Some v \<Rightarrow> v),
       description := (case t_description a of None \<Rightarrow> description t | Some v \<Rightarrow> v)\<rparr>"

text \<open>
  A new \<^verbatim>\<open>Title\<close> row before any attribute is set. \<open>default_year\<close> is the value of
  \<^verbatim>\<open>default=current_year()\<close>, computed once when the model class is loaded.
\<close>

definition default_title :: "int \<Rightarrow> title" where
  "default_title default_year = \<lparr>title_pk = 0, name = '''', year = default_year,
     category_id = None, genre_ids = [], rating = 10, description = None\<rparr>"

text \<open>\<^verbatim>\<open>TitlesViewSet\<close>, create: permissions, validation, then the insert.\<close>

definition create_title ::
  "int \<Rightarrow> int \<Rightarrow> store \<Rightarrow> request \<Rightarrow> title_data \<Rightarrow> (error + nat \<times> title) \<times> store" where
  "create_title current_year default_year st r d =
     (case check_permissions (permission_classes TitlesViewSet) r of
        Inl e \<Rightarrow> (Inl e, st)
      | Inr _ \<Rightarrow>
          (case TitlesSerializer_is_valid current_year st False d of
             Inl e \<Rightarrow> (Inl e, st)
           | Inr a \<Rightarrow>
               (let row = (set_title_attrs a (default_title default_year))
                            \<lparr>title_pk := new_pk (map title_pk (titles st))\<rparr>
                in (Inr (201, row), st\<lparr>titles := titles st @ [row]\<rparr>))))"

text \<open>
  \<^verbatim>\<open>TitlesViewSet\<close>, update (PUT) and partial update (PATCH) of the title with key
  \<open>tid\<close>: permissions, the lookup of the object and its object-level permissions,
  validation, then the write of the row.
\<close>

definition update_title ::
  "int \<Rightarrow> store \<Rightarrow> request \<Rightarrow> nat \<Rightarrow> title_data \<Rightarrow> (error + nat \<times> title) \<times> store" where
  "update_title current_year st r tid d =
     (case check_permissions (permission_classes TitlesViewSet) r of
        Inl e \<Rightarrow> (Inl e, st)
      | Inr _ \<Rightarrow>
          (case get_object_or_404 (titles st) (\<lambda>t. title_pk t = tid) of
             Inl e \<Rightarrow> (Inl e, st)
           | Inr t \<Rightarrow>
               (case check_object_permissions (permission_classes TitlesViewSet) r 0 of
                  Inl e \<Rightarrow> (Inl e, st)
                | Inr _ \<Rightarrow>
                    (case TitlesSerializer_is_valid current_year st
                            (request_method r = PATCH) d of
                       Inl e \<Rightarrow> (Inl e, st)
                     | Inr a \<Rightarrow>
                         (let row = set_title_attrs a t
                          in (Inr (200, row),
                              st\<lparr>titles := map (\<lambda>x. if title_pk x = tid then row else x)
                                             (titles st)\<rparr>))))))"

section \<open>Reviews: serializer and create handler\<close>

record review_data =
  rd_text :: "string field"
  rd_score :: "int field"

text \<open>
  \<^verbatim>\<open>ReviewSerializer.validate\<close> for the author \<^verbatim>\<open>request.user\<close> and the title key of
  the path: the title must exist, and on POST the author must not have a review of it.
\<close>

definition ReviewSerializer_validate ::
  "store \<Rightarrow> http_method \<Rightarrow> user \<Rightarrow> nat \<Rightarrow> error + unit" where
  "ReviewSerializer_validate st m author tid =
     (case get_object_or_404 (titles st) (\<lambda>t. title_pk t = tid) of
        Inl e \<Rightarrow> Inl e
      | Inr t \<Rightarrow>
          if m = POST then
            (if filter (\<lambda>rv. title_id rv = title_pk t \<and> author_id rv = pk author)
                  (reviews st) \<noteq> []
             then Inl ValidationError else Inr ())
          else Inr ())"

text \<open>
  \<^verbatim>\<open>ReviewSerializer\<close>: \<^verbatim>\<open>title\<close> and \<^verbatim>\<open>author\<close> are read-only, \<^verbatim>\<open>text\<close> is
  required, \<^verbatim>\<open>score\<close> has a default and the bounds 1 and 10. The fields run first;
  \<^verbatim>\<open>validate\<close> runs only when none of them failed.
\<close>

definition ReviewSerializer_is_valid ::
  "store \<Rightarrow> http_method \<Rightarrow> user \<Rightarrow> nat \<Rightarrow> review_data \<Rightarrow> error + string option \<times> int option" where
  "ReviewSerializer_is_valid st m author tid d =
     (let ft = run_field True [] (rd_text d);
          fs = run_field False [MinValueValidator 1, MaxValueValidator 10] (rd_score d)
      in if failed ft \<or> failed fs then Inl ValidationError
         else (case ReviewSerializer_validate st m author tid of
                 Inl e \<Rightarrow> Inl e
               | Inr _ \<Rightarrow> Inr (validated ft, validated fs)))"

text \<open>
  Writing a review row: the storage layer refuses a second row for a pair of title and
  author (the constraint \<^verbatim>\<open>unique_review\<close>).
\<close>

definition insert_review :: "review list \<Rightarrow> review \<Rightarrow> error + review \<times> review list" where
  "insert_review rs rv =
     (let row = rv\<lparr>review_pk := new_pk (map review_pk rs)\<rparr>
      in if filter (\<lambda>x. title_id x = title_id row \<and> author_id x = author_id row) rs \<noteq> []
         then Inl IntegrityError
         else Inr (row, rs @ [row]))"

text \<open>
  \<^verbatim>\<open>ReviewViewSet.perform_create\<close> for the validated text and score: the title again,
  the check for an earlier review again (the action is \<^verbatim>\<open>create\<close>), then the save with
  the author, the title, the default score 10 when none was given, and the time \<open>now\<close>.
\<close>

definition perform_create ::
  "nat \<Rightarrow> store \<Rightarrow> user \<Rightarrow> nat \<Rightarrow> string option \<times> int option \<Rightarrow> (error + review) \<times> store" where
  "perform_create now st author tid v =
     (case get_object_or_404 (titles st) (\<lambda>t. title_pk t = tid) of
        Inl e \<Rightarrow> (Inl e, st)
      | Inr t \<Rightarrow>
          if filter (\<lambda>rv. title_id rv = title_pk t \<and> author_id rv = pk author)
               (reviews st) \<noteq> []
          then (Inl ValidationError, st)
          else
            (case insert_review (reviews st)
                    \<lparr>review_pk = 0, title_id = title_pk t,
                     text_of = (case fst v of None \<Rightarrow> '''' | Some x \<Rightarrow> x),
                     author_id = pk author,
                     score = (case snd v of None \<Rightarrow> 10 | Some x \<Rightarrow> x),
                     pub_date = now\<rparr> of
               Inl e \<Rightarrow> (Inl e, st)
             | Inr (row, rs) \<Rightarrow> (Inr row, st\<lparr>reviews := rs\<rparr>)))"

text \<open>
  \<^verbatim>\<open>ReviewViewSet\<close>, create, the handler of POST on the reviews of title \<open>tid\<close>:
  permissions, validation, \<^verbatim>\<open>perform_create\<close>. Past the permission check the actor is
  a user.
\<close>

definition create_review ::
  "nat \<Rightarrow> store \<Rightarrow> request \<Rightarrow> nat \<Rightarrow> review_data \<Rightarrow> (error + nat \<times> review) \<times> store" where
  "create_review now st r tid d =
     (case check_permissions (permission_classes ReviewViewSet) r of
        Inl e \<Rightarrow> (Inl e, st)
      | Inr _ \<Rightarrow>
          (case actor r of
             None \<Rightarrow> (Inl PermissionDenied, st)
           | Some author \<Rightarrow>
               (case ReviewSerializer_is_valid st (request_method r) author tid d of
                  Inl e \<Rightarrow> (Inl e, st)
                | Inr v \<Rightarrow>
                    (case perform_create now st author tid v of
                       (Inl e, st') \<Rightarrow> (Inl e, st')
                     | (Inr row, st') \<Rightarrow> (Inr (201, row), st')))))"

text \<open>
  \<^verbatim>\<open>Review.objects.filter(title=title, author=author).exists()\<close>, the test both
  \<^verbatim>\<open>validate\<close> and \<^verbatim>\<open>perform_create\<close> make, by the keys of the title and the author.
\<close>

definition reviewed :: "store \<Rightarrow> nat \<Rightarrow> nat \<Rightarrow> bool" where
  "reviewed st tid aid = (filter (\<lambda>rv. title_id rv = tid \<and> author_id rv = aid) (reviews st) \<noteq> [])"

section \<open>Titles: read path\<close>

text \<open>
  The aggregate \<^verbatim>\<open>Avg\<close>: null over no rows, else the sum over the count. The average
  is kept exact here, as a rational; the storage layer hands it over as a float.
\<close>

definition Avg :: "int list \<Rightarrow> rat option" where
  "Avg xs = (if xs = [] then None else Some (of_int (sum_list xs) / of_nat (length xs)))"

text \<open>
  The annotation \<^verbatim>\<open>reviews__score__avg\<close> of the queryset of \<^verbatim>\<open>TitlesViewSet\<close>: for a
  title, the average of the scores of its reviews.
\<close>

definition reviews__score__avg :: "store \<Rightarrow> title \<Rightarrow> rat option" where
  "reviews__score__avg st t =
     Avg (map score (filter (\<lambda>rv. title_id rv = title_pk t) (reviews st)))"

text \<open>
  How an \<^verbatim>\<open>IntegerField\<close> writes a value out: \<^verbatim>\<open>int(value)\<close>, which cuts the
  fraction off towards zero.
\<close>

definition IntegerField_to_representation :: "rat \<Rightarrow> int" where
  "IntegerField_to_representation q = (if q < 0 then - \<lfloor>- q\<rfloor> else \<lfloor>q\<rfloor>)"

text \<open>
  The scalar fields of what \<^verbatim>\<open>ReadOnlyTitleSerializer\<close> writes for a title. Its
  \<^verbatim>\<open>rating\<close> is an \<^verbatim>\<open>IntegerField\<close> whose source is the annotation; a null source is
  written as null. The nested genres and category are left out here.
\<close>

record title_representation =
  rep_id :: nat
  rep_name :: string
  rep_year :: int
  rep_rating :: "int option"
  rep_description :: "string option"

definition ReadOnlyTitleSerializer :: "store \<Rightarrow> title \<Rightarrow> title_representation" where
  "ReadOnlyTitleSerializer st t =
     \<lparr>rep_id = title_pk t, rep_name = name t, rep_year = year t,
      rep_rating = map_option IntegerField_to_representation (reviews__score__avg st t),
      rep_description = description t\<rparr>"

text \<open>\<^verbatim>\<open>TitlesViewSet\<close>, retrieve and list (without filters).\<close>

definition retrieve_title :: "store \<Rightarrow> request \<Rightarrow> nat \<Rightarrow> error + nat \<times> title_representation" where
  "retrieve_title st r tid =
     (case check_permissions (permission_classes TitlesViewSet) r of
        Inl e \<Rightarrow> Inl e
      | Inr _ \<Rightarrow>
          (case get_object_or_404 (titles st) (\<lambda>t. title_pk t = tid) of
             Inl e \<Rightarrow> Inl e
           | Inr t \<Rightarrow> Inr (200, ReadOnlyTitleSerializer st t)))"

definition list_titles :: "store \<Rightarrow> request \<Rightarrow> error + nat \<times> title_representation list" where
  "list_titles st r =
     (case check_permissions (permission_classes TitlesViewSet) r of
        Inl e \<Rightarrow> Inl e
      | Inr _ \<Rightarrow> Inr (200, map (ReadOnlyTitleSerializer st) (titles st)))"

text \<open>
  The scores of the reviews of a title, and the quotient of two integers cut off towards
  zero, to state what the read path returns.
\<close>

definition scores_of :: "store \<Rightarrow> title \<Rightarrow> int list" where
  "scores_of st t = map score (filter (\<lambda>rv. title_id rv = title_pk t) (reviews st))"

definition truncated_quotient :: "int \<Rightarrow> int \<Rightarrow> int" where
  "truncated_quotient s n = (if s < 0 then - ((- s) div n) else s div n)"

section \<open>The own-profile patch as the specification describes it\<close>

text \<open>
  The row the specification expects after a user patched their own profile with the data
  \<open>d\<close>: every submitted field other than \<^verbatim>\<open>role\<close> applied, every other attribute,
  the role included, as it was.
\<close>

definition patched_user :: "user \<Rightarrow> user_data \<Rightarrow> user" where
  "patched_user usr d =
     usr\<lparr>username := (case ud_username d of Given v \<Rightarrow> v | _ \<Rightarrow> username usr),
         email := (case ud_email d of Given v \<Rightarrow> v | _ \<Rightarrow> email usr),
         first_name := (case ud_first_name d of Given v \<Rightarrow> v | _ \<Rightarrow> first_name usr),
         last_name := (case ud_last_name d of Given v \<Rightarrow> v | _ \<Rightarrow> last_name usr),
         bio := (case ud_bio d of Given v \<Rightarrow> v | _ \<Rightarrow> bio usr)\<rparr>"

text \<open>
  The patches that go through: no submitted field is refused by its field class, and the
  username the row would carry is not the username of another stored user and is not the
  reserved one.
\<close>

definition patch_accepted :: "store \<Rightarrow> user \<Rightarrow> user_data \<Rightarrow> bool" where
  "patch_accepted st usr d =
     (ud_username d \<noteq> Malformed \<and> ud_email d \<noteq> Malformed \<and> ud_first_name d \<noteq> Malformed
      \<and> ud_last_name d \<noteq> Malformed \<and> ud_bio d \<noteq> Malformed
      \<and> username (patched_user usr d)
           \<notin> set (map username (filter (\<lambda>x. pk x \<noteq> pk usr) (users st)))
      \<and> lower (username (patched_user usr d)) \<noteq> ''me'')"

section \<open>Example data\<close>

text \<open>Four stored users, one for each way an actor can stand to a review.\<close>

definition alice :: user where
  "alice = \<lparr>pk = 1, username = ''alice'', email = ''a@x.com'', first_name = '''',
     last_name = '''', bio = None, role = ''user'', confirmation_code = '''',
     is_superuser = False\<rparr>"

definition bob :: user where
  "bob = \<lparr>pk = 2, username = ''bob'', email = ''b@x.com'', first_name = '''',
     last_name = '''', bio = None, role = ''user'', confirmation_code = '''',
     is_superuser = False\<rparr>"

definition carol :: user where
  "carol = \<lparr>pk = 3, username = ''carol'', email = ''c@x.com'', first_name = '''',
     last_name = '''', bio = None, role = ''moderator'', confirmation_code = '''',
     is_superuser = False\<rparr>"

definition dave :: user where
  "dave = \<lparr>pk = 4, username = ''dave'', email = ''d@x.com'', first_name = '''',
     last_name = '''', bio = None, role = ''admin'', confirmation_code = '''',
     is_superuser = False\<rparr>"

text \<open>
  Stand-ins for the framework's token functions, to run the handlers on examples: the
  confirmation code and the access token of a user are fixed texts that name the user.
\<close>

definition example_make_token :: "user \<Rightarrow> string" where
  "example_make_token u = ''code-'' @ username u"

definition example_check_token :: "user \<Rightarrow> string \<Rightarrow> bool" where
  "example_check_token u c = (c = example_make_token u)"

definition example_for_user :: "user \<Rightarrow> string" where
  "example_for_user u = ''jwt-'' @ username u"

text \<open>A store with the four users and nothing else.\<close>

definition store0 :: store where
  "store0 = \<lparr>users = [alice, bob, carol, dave], categories = [], genres = [],
     titles = [], reviews = [], outbox = []\<rparr>"

text \<open>A title with two reviews, scored 7 and 8, in a store with the four users.\<close>

definition drama :: category where
  "drama = \<lparr>category_pk = 1, category_name = ''Drama'', category_slug = ''drama''\<rparr>"

definition solaris :: title where
  "solaris = \<lparr>title_pk = 1, name = ''Solaris'', year = 1972, category_id = Some 1,
     genre_ids = [], rating = 10, description = None\<rparr>"

definition review_a :: review where
  "review_a = \<lparr>review_pk = 1, title_id = 1, text_of = ''good'', author_id = 1, score = 7,
     pub_date = 100\<rparr>"

definition review_b :: review where
  "review_b = \<lparr>review_pk = 2, title_id = 1, text_of = ''better'', author_id = 2, score = 8,
     pub_date = 101\<rparr>"

definition store1 :: store where
  "store1 = \<lparr>users = [alice, bob, carol, dave], categories = [drama], genres = [],
     titles = [solaris], reviews = [review_a, review_b], outbox = []\<rparr>"

section \<open>Lookup lemmas\<close>

lemma filter_unique_key:
  "distinct (map f xs) \<Longrightarrow> x \<in> set xs \<Longrightarrow> filter (\<lambda>y. f y = f x) xs = [x]"
proof (induction xs)
  case Nil
  then show ?case by simp
next
  case (Cons a xs)
  show ?case
  proof (cases "a = x")
    case True
    from Cons.prems True have "f x \<notin> f ` set xs" by simp
    then have "\<forall>y\<in>set xs. f y \<noteq> f x" by (metis imageI)
    with True show ?thesis by (simp add: filter_empty_conv)
  next
    case False
    with Cons.prems have "x \<in> set xs" "f a \<noteq> f x" by auto
    with Cons show ?thesis by simp
  qed
qed

lemma get_object_or_404_none:
  "\<forall>x\<in>set rows. \<not> cond x \<Longrightarrow> get_object_or_404 rows cond = Inl Http404"
  by (simp add: get_object_or_404_def filter_empty_conv[THEN iffD2])

lemma get_object_or_404_found:
  assumes "get_object_or_404 rows cond = Inr x"
  shows "x \<in> set rows \<and> cond x"
proof -
  from assms have "filter cond rows = [x]"
    by (auto simp: get_object_or_404_def split: list.splits)
  then have "x \<in> set (filter cond rows)" by simp
  then show ?thesis by simp
qed

section \<open>Registration lemmas\<close>


lemma lower_char_m: "lower_char c = CHR ''m'' \<longleftrightarrow> c = CHR ''m'' \<or> c = CHR ''M''"
  by (auto simp: lower_char_def split: if_splits)

lemma lower_char_e: "lower_char c = CHR ''e'' \<longleftrightarrow> c = CHR ''e'' \<or> c = CHR ''E''"
  by (auto simp: lower_char_def split: if_splits)

lemma lower_me_iff: "lower u = ''me'' \<longleftrightarrow> u \<in> {''me'', ''Me'', ''mE'', ''ME''}"
proof -
  have "lower u = ''me'' \<longleftrightarrow> (\<exists>a b. u = [a, b] \<and> lower_char a = CHR ''m'' \<and> lower_char b = CHR ''e'')"
    by (auto simp: lower_def map_eq_Cons_conv)
  then show ?thesis
    unfolding lower_char_m lower_char_e by auto
qed



lemma SignUpSerializer_is_valid_taken:
  assumes "su_username d = Given u" "su_email d = Given e"
    and "u \<in> set (map username us) \<or> e \<in> set (map email us) \<or> lower u = ''me''"
  shows "SignUpSerializer_is_valid us d = Inl ValidationError"
  using assms
  by (auto simp: SignUpSerializer_is_valid_def SignUpSerializer_username_def run_field_def
      UniqueValidator_def validate_username_def failed_def validated_def)





lemma register_taken:
  assumes "su_username d = Given u" "su_email d = Given e"
    and "u \<in> set (map username (users st)) \<or> e \<in> set (map email (users st))
         \<or> lower u = ''me''"
  shows "register mk st d = (Inl ValidationError, st)"
  using SignUpSerializer_is_valid_taken[OF assms] by (simp add: register_def)


lemma store0_usernames: "map username (users store0) = [''alice'', ''bob'', ''carol'', ''dave'']"
  by (simp add: store0_def alice_def bob_def carol_def dave_def)

lemma store0_emails: "map email (users store0) = [''a@x.com'', ''b@x.com'', ''c@x.com'', ''d@x.com'']"
  by (simp add: store0_def alice_def bob_def carol_def dave_def)

lemma create_user_reserved:
  assumes "check_permissions (permission_classes UserViewSet) r = Inr ()"
    and "ud_username d = Given u" "ud_email d = Given e"
    and "ud_first_name d = Absent" "ud_last_name d = Absent" "ud_bio d = Absent"
        "ud_role d = Absent"
    and "u \<notin> set (map username (users st))" "e \<notin> set (map email (users st))"
    and "lower u = ''me''"
  shows "create_user st r d = (Inl IntegrityError, st)"
proof -
  let ?a = "\<lparr>a_username = Some u, a_email = Some e, a_first_name = None,
             a_last_name = None, a_bio = None, a_role = None\<rparr>"
  have valid: "UserSerializer_is_valid (users st) d = Inr ?a"
    using assms(2-9)
    by (simp add: UserSerializer_is_valid_def run_field_def UniqueValidator_def failed_def
        validated_def)
  have "username (set_user_attrs ?a default_user) = u"
    by (simp add: set_user_attrs_def)
  with assms(10) have "insert_user (users st) (set_user_attrs ?a default_user)
      = Inl IntegrityError"
    by (simp add: insert_user_def username_is_not_me_def lower_def lower_char_def Let_def)
  with assms(1) valid show ?thesis
    by (simp add: create_user_def)
qed

section \<open>Own-profile lemmas\<close>

lemma failed_optional: "failed (run_field False [] f) \<longleftrightarrow> f = Malformed"
  by (cases f) (simp_all add: failed_def run_field_def)

lemma validated_optional:
  "validated (run_field False [] f) = (case f of Given v \<Rightarrow> Some v | _ \<Rightarrow> None)"
  by (cases f) (simp_all add: validated_def run_field_def)

lemma failed_unique:
  "failed (run_field False [UniqueValidator col] f)
     \<longleftrightarrow> f = Malformed \<or> (\<exists>v. f = Given v \<and> v \<in> set col)"
  by (cases f) (simp_all add: failed_def run_field_def UniqueValidator_def)

lemma validated_unique:
  "\<not> failed (run_field False [UniqueValidator col] f) \<Longrightarrow>
   validated (run_field False [UniqueValidator col] f)
     = (case f of Given v \<Rightarrow> Some v | _ \<Rightarrow> None)"
  by (cases f) (auto simp: failed_def validated_def run_field_def UniqueValidator_def
      split: if_splits)

lemma lower_me: "lower ''me'' = ''me''"
  by (simp add: lower_def lower_char_def)

lemma UserEditSerializer_is_valid_cases:
  "UserEditSerializer_is_valid us usr d =
     (if ud_username d = Malformed \<or> ud_email d = Malformed \<or> ud_first_name d = Malformed
         \<or> ud_last_name d = Malformed \<or> ud_bio d = Malformed
         \<or> (\<exists>v. ud_username d = Given v
                \<and> v \<in> set (map username (filter (\<lambda>x. pk x \<noteq> pk usr) us)))
      then Inl ValidationError
      else Inr \<lparr>a_username = (case ud_username d of Given v \<Rightarrow> Some v | _ \<Rightarrow> None),
                a_email = (case ud_email d of Given v \<Rightarrow> Some v | _ \<Rightarrow> None),
                a_first_name = (case ud_first_name d of Given v \<Rightarrow> Some v | _ \<Rightarrow> None),
                a_last_name = (case ud_last_name d of Given v \<Rightarrow> Some v | _ \<Rightarrow> None),
                a_bio = (case ud_bio d of Given v \<Rightarrow> Some v | _ \<Rightarrow> None),
                a_role = None\<rparr>)"
proof -
  let ?col = "map username (filter (\<lambda>x. pk x \<noteq> pk usr) us)"
  show ?thesis
  proof (cases "failed (run_field False [UniqueValidator ?col] (ud_username d))")
    case True
    then show ?thesis
      unfolding UserEditSerializer_is_valid_def Let_def
      by (auto simp: failed_unique)
  next
    case False
    from validated_unique[OF False] False show ?thesis
      unfolding UserEditSerializer_is_valid_def Let_def
      by (auto simp: failed_unique failed_optional validated_optional)
  qed
qed

lemma set_user_attrs_patched:
  "set_user_attrs
     \<lparr>a_username = (case ud_username d of Given v \<Rightarrow> Some v | _ \<Rightarrow> None),
      a_email = (case ud_email d of Given v \<Rightarrow> Some v | _ \<Rightarrow> None),
      a_first_name = (case ud_first_name d of Given v \<Rightarrow> Some v | _ \<Rightarrow> None),
      a_last_name = (case ud_last_name d of Given v \<Rightarrow> Some v | _ \<Rightarrow> None),
      a_bio = (case ud_bio d of Given v \<Rightarrow> Some v | _ \<Rightarrow> None),
      a_role = None\<rparr> usr = patched_user usr d"
  by (simp add: set_user_attrs_def patched_user_def split: field.splits)

lemma patched_user_frame:
  "role (patched_user usr d) = role usr" "pk (patched_user usr d) = pk usr"
  by (simp_all add: patched_user_def)

lemma patch_own_profile_cases:
  assumes "actor r = Some usr"
  shows "patch_own_profile st r d =
     (if patch_accepted st usr d
      then (Inr (200, patched_user usr d),
            st\<lparr>users := map (\<lambda>x. if pk x = pk usr then patched_user usr d else x) (users st)\<rparr>)
      else if ud_username d = Malformed \<or> ud_email d = Malformed \<or> ud_first_name d = Malformed
         \<or> ud_last_name d = Malformed \<or> ud_bio d = Malformed
         \<or> (\<exists>v. ud_username d = Given v
                \<and> v \<in> set (map username (filter (\<lambda>x. pk x \<noteq> pk usr) (users st))))
      then (Inl ValidationError, st)
      else (Inl IntegrityError, st))"
proof -
  let ?col = "map username (filter (\<lambda>x. pk x \<noteq> pk usr) (users st))"
  let ?bad = "ud_username d = Malformed \<or> ud_email d = Malformed \<or> ud_first_name d = Malformed
         \<or> ud_last_name d = Malformed \<or> ud_bio d = Malformed
         \<or> (\<exists>v. ud_username d = Given v \<and> v \<in> set ?col)"
  have perm: "check_permissions [IsAuthenticated] r = Inr ()"
    using assms by (simp add: is_authenticated_def)
  show ?thesis
  proof (cases ?bad)
    case True
    then have "\<not> patch_accepted st usr d"
      by (auto simp: patch_accepted_def patched_user_def)
    with True perm assms show ?thesis
      by (simp add: patch_own_profile_def UserEditSerializer_is_valid_cases del: set_map set_filter)
  next
    case False
    have upd: "update_user (users st) (patched_user usr d) =
        (if patch_accepted st usr d
         then Inr (map (\<lambda>x. if pk x = pk usr then patched_user usr d else x) (users st))
         else Inl IntegrityError)"
      using False
      by (auto simp: update_user_def patch_accepted_def username_is_not_me_def lower_me
          patched_user_frame)
    from False perm assms upd show ?thesis
      by (auto simp: patch_own_profile_def UserEditSerializer_is_valid_cases
          set_user_attrs_patched)
  qed
qed

lemma map_role_unchanged:
  assumes "usr \<in> set us" "distinct (map pk us)" "role u' = role usr"
  shows "map role (map (\<lambda>x. if pk x = pk usr then u' else x) us) = map role us"
proof -
  have "\<forall>x\<in>set us. pk x = pk usr \<longrightarrow> x = usr"
    using assms(1,2) by (meson distinct_map inj_onD)
  then show ?thesis using assms(3) by (auto simp: o_def)
qed


lemma store0_pks: "map pk (users store0) = [1, 2, 3, 4]"
  by (simp add: store0_def alice_def bob_def carol_def dave_def)

lemma UserEditSerializer_ignores_role:
  "UserEditSerializer_is_valid us usr (d\<lparr>ud_role := f\<rparr>) = UserEditSerializer_is_valid us usr d"
  by (simp add: UserEditSerializer_is_valid_def)

section \<open>Title lemmas\<close>

lemma year_field_future:
  "current_year < y \<Longrightarrow>
   failed (run_field False [MinValueValidator 0, max_value_current_year current_year] (Given y))"
  by (simp add: failed_def run_field_def MinValueValidator_def max_value_current_year_def
      MaxValueValidator_def)

lemma TitlesSerializer_future_year:
  assumes "td_year d = Given y" "current_year < y"
  shows "TitlesSerializer_is_valid current_year st partial d = Inl ValidationError"
  using year_field_future[OF assms(2)] assms(1)
  by (simp add: TitlesSerializer_is_valid_def Let_def)

lemma check_permissions_outcome:
  "check_permissions ps r = Inr () \<or> check_permissions ps r = Inl PermissionDenied"
  by (induction ps) simp_all

lemma check_object_permissions_titles:
  "check_object_permissions (permission_classes TitlesViewSet) r k = Inr ()"
  by simp

lemma get_object_or_404_key:
  assumes "distinct (map f rows)" "x \<in> set rows"
  shows "get_object_or_404 rows (\<lambda>y. f y = f x) = Inr x"
  using filter_unique_key[OF assms] by (simp add: get_object_or_404_def)

lemma dave_may_write:
  "check_permissions (permission_classes TitlesViewSet) \<lparr>request_method = m, actor = Some dave\<rparr>
     = Inr ()"
  by (simp add: is_admin_def ADMIN_def dave_def)

lemma store1_titles: "titles store1 = [solaris]" "categories store1 = [drama]"
    "genres store1 = []"
  by (simp_all add: store1_def)

section \<open>Review lemmas\<close>

lemma reviewed_iff:
  "reviewed st tid aid \<longleftrightarrow> (\<exists>rv\<in>set (reviews st). title_id rv = tid \<and> author_id rv = aid)"
  by (auto simp: reviewed_def filter_empty_conv)

lemma ReviewSerializer_validate_post:
  assumes "t \<in> set (titles st)" "distinct (map title_pk (titles st))"
  shows "ReviewSerializer_validate st POST u (title_pk t) =
           (if reviewed st (title_pk t) (pk u) then Inl ValidationError else Inr ())"
  using get_object_or_404_key[OF assms(2,1)]
  by (simp add: ReviewSerializer_validate_def reviewed_def)

lemma ReviewSerializer_is_valid_outcome:
  "ReviewSerializer_is_valid st m u tid d = Inl ValidationError
   \<or> ReviewSerializer_is_valid st m u tid d = Inl Http404
   \<or> ReviewSerializer_is_valid st m u tid d = Inl MultipleObjectsReturned
   \<or> (\<exists>v. ReviewSerializer_is_valid st m u tid d = Inr v
          \<and> ReviewSerializer_validate st m u tid = Inr ())"
  by (auto simp: ReviewSerializer_is_valid_def ReviewSerializer_validate_def Let_def
      get_object_or_404_def split: sum.splits list.splits if_splits)

lemma create_review_second:
  assumes "request_method r = POST" "actor r = Some u"
    and "t \<in> set (titles st)" "distinct (map title_pk (titles st))"
    and "reviewed st (title_pk t) (pk u)"
  shows "create_review now st r (title_pk t) d = (Inl ValidationError, st)"
proof -
  have perm: "check_permissions (permission_classes ReviewViewSet) r = Inr ()"
    using assms(2) by (simp add: is_authenticated_def)
  have v: "ReviewSerializer_validate st POST u (title_pk t) = Inl ValidationError"
    using ReviewSerializer_validate_post[OF assms(3,4)] assms(5) by simp
  have "ReviewSerializer_is_valid st POST u (title_pk t) d = Inl ValidationError"
    by (simp add: ReviewSerializer_is_valid_def Let_def v)
  with perm assms(1,2) show ?thesis
    by (simp add: create_review_def del: check_permissions.simps permission_classes.simps)
qed

lemma create_review_first:
  assumes "request_method r = POST" "actor r = Some u"
    and "t \<in> set (titles st)" "distinct (map title_pk (titles st))"
    and "\<not> reviewed st (title_pk t) (pk u)"
    and "rd_text d = Given x"
    and "rd_score d = Absent \<or> (\<exists>s. rd_score d = Given s \<and> 1 \<le> s \<and> s \<le> 10)"
  shows "create_review now st r (title_pk t) d =
           (Inr (201, \<lparr>review_pk = new_pk (map review_pk (reviews st)),
                       title_id = title_pk t, text_of = x, author_id = pk u,
                       score = (case rd_score d of Given s \<Rightarrow> s | _ \<Rightarrow> 10),
                       pub_date = now\<rparr>),
            st\<lparr>reviews := reviews st @
                  [\<lparr>review_pk = new_pk (map review_pk (reviews st)),
                    title_id = title_pk t, text_of = x, author_id = pk u,
                    score = (case rd_score d of Given s \<Rightarrow> s | _ \<Rightarrow> 10),
                    pub_date = now\<rparr>]\<rparr>)"
proof -
  let ?sc = "case rd_score d of Given s \<Rightarrow> Some s | _ \<Rightarrow> None"
  have perm: "check_permissions (permission_classes ReviewViewSet) r = Inr ()"
    using assms(2) by (simp add: is_authenticated_def)
  have v: "ReviewSerializer_validate st POST u (title_pk t) = Inr ()"
    using ReviewSerializer_validate_post[OF assms(3,4)] assms(5) by simp
  have ft: "run_field True [] (rd_text d) = Inr (Some x)"
    using assms(6) by (simp add: run_field_def)
  have fs: "run_field False [MinValueValidator 1, MaxValueValidator 10] (rd_score d) = Inr ?sc"
    using assms(7)
    by (auto simp: run_field_def MinValueValidator_def MaxValueValidator_def)
  have valid: "ReviewSerializer_is_valid st POST u (title_pk t) d = Inr (Some x, ?sc)"
    by (simp add: ReviewSerializer_is_valid_def Let_def v ft fs failed_def validated_def)
  have sc: "(case ?sc of None \<Rightarrow> 10 | Some s \<Rightarrow> s) = (case rd_score d of Given s \<Rightarrow> s | _ \<Rightarrow> 10)"
    by (simp split: field.splits)
  have nil: "filter (\<lambda>rv. title_id rv = title_pk t \<and> author_id rv = pk u) (reviews st) = []"
    using assms(5) by (simp add: reviewed_def)
  have pc: "perform_create now st u (title_pk t) (Some x, ?sc) =
      (Inr \<lparr>review_pk = new_pk (map review_pk (reviews st)),
                       title_id = title_pk t, text_of = x, author_id = pk u,
                       score = (case rd_score d of Given s \<Rightarrow> s | _ \<Rightarrow> 10),
                       pub_date = now\<rparr>,
       st\<lparr>reviews := reviews st @
                  [\<lparr>review_pk = new_pk (map review_pk (reviews st)),
                    title_id = title_pk t, text_of = x, author_id = pk u,
                    score = (case rd_score d of Given s \<Rightarrow> s | _ \<Rightarrow> 10),
                    pub_date = now\<rparr>]\<rparr>)"
    using get_object_or_404_key[OF assms(4,3)] nil sc
    by (simp add: perform_create_def insert_review_def Let_def)
  show ?thesis
    using perm assms(1,2) valid pc
    by (simp add: create_review_def del: check_permissions.simps permission_classes.simps)
qed


lemma store1_reviews: "reviews store1 = [review_a, review_b]"
  by (simp add: store1_def)

section \<open>Read-path lemmas\<close>

lemma floor_quotient: "\<lfloor>(of_int s :: rat) / of_nat n\<rfloor> = s div int n"
  using floor_divide_of_int_eq[of s "int n", where ?'a = rat] by simp

lemma IntegerField_quotient:
  "IntegerField_to_representation (of_int s / of_nat n) = truncated_quotient s (int n)"
proof (cases "n = 0")
  case True
  then show ?thesis
    by (simp add: IntegerField_to_representation_def truncated_quotient_def)
next
  case False
  then have pos: "(0::rat) < of_nat n" by simp
  have neg: "((of_int s :: rat) / of_nat n < 0) = (s < 0)"
    using pos by (simp add: divide_less_0_iff)
  have m: "- ((of_int s :: rat) / of_nat n) = of_int (- s) / of_nat n" by simp
  show ?thesis
    unfolding IntegerField_to_representation_def truncated_quotient_def neg m floor_quotient
    by simp
qed

lemma rep_rating_scores:
  "rep_rating (ReadOnlyTitleSerializer st t) =
     (if scores_of st t = [] then None
      else Some (truncated_quotient (sum_list (scores_of st t)) (int (length (scores_of st t)))))"
  by (simp add: ReadOnlyTitleSerializer_def reviews__score__avg_def Avg_def scores_of_def
      IntegerField_quotient)

lemma safe_may_read:
  "request_method r \<in> set SAFE_METHODS \<Longrightarrow>
   check_permissions (permission_classes TitlesViewSet) r = Inr ()"
  by simp

lemma store1_scores: "scores_of store1 solaris = [7, 8]"
  by (simp add: scores_of_def store1_reviews review_a_def review_b_def solaris_def)

lemma store0_scores: "scores_of store0 solaris = []"
  by (simp add: scores_of_def store0_def)

lemma solaris_representation:
  "ReadOnlyTitleSerializer st solaris =
     \<lparr>rep_id = 1, rep_name = ''Solaris'', rep_year = 1972,
      rep_rating = rep_rating (ReadOnlyTitleSerializer st solaris), rep_description = None\<rparr>"
  by (simp add: ReadOnlyTitleSerializer_def solaris_def)

section \<open>Authorization theorems\<close>

lemma safe_method_iff: "m \<in> set SAFE_METHODS \<longleftrightarrow> m = GET \<or> m = HEAD \<or> m = OPTIONS"
  by (auto simp: SAFE_METHODS_def)

text \<open>
  Claim C2. On a review or a comment, an update or delete (any method outside the safe
  ones) is allowed exactly when the request has an authenticated actor who is a
  superuser, has role admin, has role moderator, or is the author of the object; every
  other request, that of the anonymous user included, is refused with
  \<open>PermissionDenied\<close>.
\<close>

theorem staff_or_author_object_decision:
  assumes "v = ReviewViewSet \<or> v = CommentViewSet"
    and "request_method r \<notin> set SAFE_METHODS"
  shows "(authorize_object v r author_pk = Inr ()
            \<longleftrightarrow> (\<exists>u. actor r = Some u
                     \<and> (is_superuser u \<or> role u = ''admin'' \<or> role u = ''moderator''
                          \<or> author_pk = pk u)))
       \<and> (authorize_object v r author_pk = Inr ()
            \<or> authorize_object v r author_pk = Inl PermissionDenied)"
  using assms
  by (auto simp: authorize_object_def is_authenticated_def is_admin_def is_moderator_def
      ADMIN_def MODERATOR_def split: if_splits option.splits)

text \<open>
  Claim C3. On categories, genres and titles a safe method is allowed for every actor,
  the anonymous one included; any other method is allowed exactly when the actor is
  authenticated and has role admin or is a superuser, and is refused with
  \<open>PermissionDenied\<close> otherwise.
\<close>

theorem admin_or_read_only_decision:
  assumes "v = CategoryViewSet \<or> v = GenriesViewSet \<or> v = TitlesViewSet"
  shows "(request_method r \<in> {GET, HEAD, OPTIONS}
            \<longrightarrow> check_permissions (permission_classes v) r = Inr ())
       \<and> (request_method r \<notin> {GET, HEAD, OPTIONS}
            \<longrightarrow> (check_permissions (permission_classes v) r = Inr ()
                   \<longleftrightarrow> (\<exists>u. actor r = Some u \<and> (role u = ''admin'' \<or> is_superuser u))))
       \<and> (check_permissions (permission_classes v) r = Inr ()
            \<or> check_permissions (permission_classes v) r = Inl PermissionDenied)"
  using assms
  by (auto simp: safe_method_iff is_admin_def ADMIN_def split: option.splits if_splits)


theorem staff_or_author_object_decision_witness:
  "authorize_object ReviewViewSet \<lparr>request_method = DELETE, actor = Some bob\<rparr> 1 = Inl PermissionDenied
   \<and> authorize_object ReviewViewSet \<lparr>request_method = DELETE, actor = Some alice\<rparr> 1 = Inr ()
   \<and> authorize_object CommentViewSet \<lparr>request_method = PATCH, actor = Some carol\<rparr> 1 = Inr ()
   \<and> authorize_object ReviewViewSet \<lparr>request_method = DELETE, actor = Some dave\<rparr> 1 = Inr ()
   \<and> authorize_object CommentViewSet \<lparr>request_method = DELETE, actor = None\<rparr> 1
       = Inl PermissionDenied"
  using staff_or_author_object_decision
          [of ReviewViewSet "\<lparr>request_method = DELETE, actor = Some bob\<rparr>" 1]
        staff_or_author_object_decision
          [of ReviewViewSet "\<lparr>request_method = DELETE, actor = Some alice\<rparr>" 1]
        staff_or_author_object_decision
          [of CommentViewSet "\<lparr>request_method = PATCH, actor = Some carol\<rparr>" 1]
        staff_or_author_object_decision
          [of ReviewViewSet "\<lparr>request_method = DELETE, actor = Some dave\<rparr>" 1]
        staff_or_author_object_decision
          [of CommentViewSet "\<lparr>request_method = DELETE, actor = None\<rparr>" 1]
  by (auto simp: SAFE_METHODS_def alice_def bob_def carol_def dave_def)

theorem admin_or_read_only_decision_witness:
  "check_permissions (permission_classes TitlesViewSet) \<lparr>request_method = GET, actor = None\<rparr> = Inr ()
   \<and> check_permissions (permission_classes CategoryViewSet) \<lparr>request_method = POST, actor = None\<rparr>
       = Inl PermissionDenied
   \<and> check_permissions (permission_classes GenriesViewSet) \<lparr>request_method = DELETE, actor = Some bob\<rparr>
       = Inl PermissionDenied
   \<and> check_permissions (permission_classes TitlesViewSet) \<lparr>request_method = POST, actor = Some dave\<rparr>
       = Inr ()"
  using admin_or_read_only_decision [of TitlesViewSet "\<lparr>request_method = GET, actor = None\<rparr>"]
        admin_or_read_only_decision [of CategoryViewSet "\<lparr>request_method = POST, actor = None\<rparr>"]
        admin_or_read_only_decision
          [of GenriesViewSet "\<lparr>request_method = DELETE, actor = Some bob\<rparr>"]
        admin_or_read_only_decision
          [of TitlesViewSet "\<lparr>request_method = POST, actor = Some dave\<rparr>"]
  by (auto simp: bob_def dave_def)
section \<open>Token exchange\<close>

text \<open>
  Claim C4. For a token request whose two fields pass field validation, with the stored
  usernames unique: when no user has the given username the request fails with
  \<open>Http404\<close>; when the user exists and the confirmation code does not verify, the answer is
  status 400 without a token; when it verifies, the answer is status 200 with the token
  minted for that user; and a token is answered only when some stored user has the given
  username and the code verifies against it.
\<close>

theorem get_jwt_token_outcomes:
  assumes "tk_username d = Given u" and "tk_confirmation_code d = Given c"
    and "distinct (map username (users st))"
  shows "(u \<notin> set (map username (users st))
            \<longrightarrow> get_jwt_token check_token for_user st d = Inl Http404)
       \<and> (\<forall>usr\<in>set (users st). username usr = u \<and> \<not> check_token usr c
            \<longrightarrow> get_jwt_token check_token for_user st d = Inr (400, Errors))
       \<and> (\<forall>usr\<in>set (users st). username usr = u \<and> check_token usr c
            \<longrightarrow> get_jwt_token check_token for_user st d = Inr (200, Token (for_user usr)))
       \<and> (\<forall>s t. get_jwt_token check_token for_user st d = Inr (s, Token t)
            \<longrightarrow> (\<exists>usr\<in>set (users st). username usr = u \<and> check_token usr c))"
proof -
  have valid: "GetTokenSerializer_is_valid d = Inr (u, c)"
    using assms(1,2) by (simp add: GetTokenSerializer_is_valid_def run_field_def)
  have absent: "get_object_or_404 (users st) (\<lambda>x. username x = u) = Inl Http404"
    if "u \<notin> set (map username (users st))"
    using that by (intro get_object_or_404_none) auto
  have found: "get_object_or_404 (users st) (\<lambda>x. username x = u) = Inr usr"
    if "usr \<in> set (users st)" "username usr = u" for usr
    using filter_unique_key[OF assms(3) that(1)] that(2)
    by (simp add: get_object_or_404_def)
  have only: "\<exists>usr\<in>set (users st). username usr = u \<and> check_token usr c"
    if "get_jwt_token check_token for_user st d = Inr (s, Token t)" for s t
  proof (cases "get_object_or_404 (users st) (\<lambda>x. username x = u)")
    case (Inl e)
    with that valid show ?thesis by (simp add: get_jwt_token_def)
  next
    case (Inr usr)
    with that valid have "check_token usr c"
      by (simp add: get_jwt_token_def split: if_splits)
    with get_object_or_404_found[OF Inr] show ?thesis by blast
  qed
  show ?thesis
    using valid absent found only by (simp add: get_jwt_token_def)
qed

theorem get_jwt_token_outcomes_witness:
  "get_jwt_token example_check_token example_for_user store0
      \<lparr>tk_username = Given ''zed'', tk_confirmation_code = Given ''code-zed''\<rparr> = Inl Http404
   \<and> get_jwt_token example_check_token example_for_user store0
      \<lparr>tk_username = Given ''alice'', tk_confirmation_code = Given ''code-bob''\<rparr>
       = Inr (400, Errors)
   \<and> get_jwt_token example_check_token example_for_user store0
      \<lparr>tk_username = Given ''alice'', tk_confirmation_code = Given ''code-alice''\<rparr>
       = Inr (200, Token ''jwt-alice'')"
proof -
  have names: "map username (users store0) = [''alice'', ''bob'', ''carol'', ''dave'']"
    by (simp add: store0_def alice_def bob_def carol_def dave_def)
  have h: "distinct (map username (users store0))"
    unfolding names by simp
  have a: "alice \<in> set (users store0)" "username alice = ''alice''"
    by (simp_all add: store0_def alice_def)
  have z: "''zed'' \<notin> set (map username (users store0))"
    unfolding names by simp
  have bad: "\<not> example_check_token alice ''code-bob''"
    by (simp add: example_check_token_def example_make_token_def alice_def)
  have good: "example_check_token alice ''code-alice''"
    by (simp add: example_check_token_def example_make_token_def alice_def)
  have jwt: "example_for_user alice = ''jwt-alice''"
    by (simp add: example_for_user_def alice_def)
  have "get_jwt_token example_check_token example_for_user store0
      \<lparr>tk_username = Given ''zed'', tk_confirmation_code = Given ''code-zed''\<rparr> = Inl Http404"
    using get_jwt_token_outcomes [OF _ _ h, of
        "\<lparr>tk_username = Given ''zed'', tk_confirmation_code = Given ''code-zed''\<rparr>"
        "''zed''" "''code-zed''" example_check_token example_for_user] z
    by (simp del: set_map)
  moreover have "get_jwt_token example_check_token example_for_user store0
      \<lparr>tk_username = Given ''alice'', tk_confirmation_code = Given ''code-bob''\<rparr>
       = Inr (400, Errors)"
    using get_jwt_token_outcomes [OF _ _ h, of
        "\<lparr>tk_username = Given ''alice'', tk_confirmation_code = Given ''code-bob''\<rparr>"
        "''alice''" "''code-bob''" example_check_token example_for_user] a bad
    by (metis token_data.select_convs)
  moreover have "get_jwt_token example_check_token example_for_user store0
      \<lparr>tk_username = Given ''alice'', tk_confirmation_code = Given ''code-alice''\<rparr>
       = Inr (200, Token ''jwt-alice'')"
    using get_jwt_token_outcomes [OF _ _ h, of
        "\<lparr>tk_username = Given ''alice'', tk_confirmation_code = Given ''code-alice''\<rparr>"
        "''alice''" "''code-alice''" example_check_token example_for_user] a good jwt
    by (metis token_data.select_convs)
  ultimately show ?thesis by blast
qed

section \<open>Registration\<close>







text \<open>
  Claim C9. The sign-up path refuses the reserved username with \<open>ValidationError\<close>; the
  user-creation path of \<^verbatim>\<open>UserViewSet\<close>, whose serializer has no
  \<^verbatim>\<open>validate_username\<close>, lets it through to the insert, where the check constraint
  raises \<open>IntegrityError\<close>. Here the administrator dave posts the username \<^verbatim>\<open>me\<close>.
\<close>

theorem create_user_me_is_integrity_error:
  "create_user store0 \<lparr>request_method = POST, actor = Some dave\<rparr>
      \<lparr>ud_username = Given ''me'', ud_email = Given ''me@x.com'', ud_first_name = Absent,
       ud_last_name = Absent, ud_bio = Absent, ud_role = Absent\<rparr>
     = (Inl IntegrityError, store0)
   \<and> register example_make_token store0
        \<lparr>su_username = Given ''me'', su_email = Given ''me@x.com''\<rparr>
       = (Inl ValidationError, store0)"
proof -
  have perm: "check_permissions (permission_classes UserViewSet)
                \<lparr>request_method = POST, actor = Some dave\<rparr> = Inr ()"
    by (simp add: is_admin_def ADMIN_def dave_def)
  have names: "''me'' \<notin> set (map username (users store0))"
      "''me@x.com'' \<notin> set (map email (users store0))"
    unfolding store0_usernames store0_emails by simp_all
  have me: "lower ''me'' = ''me''"
    by (simp add: lower_def lower_char_def)
  have "create_user store0 \<lparr>request_method = POST, actor = Some dave\<rparr>
      \<lparr>ud_username = Given ''me'', ud_email = Given ''me@x.com'', ud_first_name = Absent,
       ud_last_name = Absent, ud_bio = Absent, ud_role = Absent\<rparr>
     = (Inl IntegrityError, store0)"
    using perm names me by (intro create_user_reserved[of _ _ "''me''" "''me@x.com''"]) simp_all
  moreover have "register example_make_token store0
        \<lparr>su_username = Given ''me'', su_email = Given ''me@x.com''\<rparr>
       = (Inl ValidationError, store0)"
    using me by (intro register_taken[of _ "''me''" "''me@x.com''"]) simp_all
  ultimately show ?thesis by simp
qed

section \<open>Own profile\<close>

text \<open>
  Claim C6. For an authenticated actor, \<^verbatim>\<open>patch_own_profile\<close> never reads the
  submitted \<^verbatim>\<open>role\<close>: whatever is submitted for it, the outcome is the one without it.
  An accepted patch answers 200 with the actor's row carrying the other submitted fields
  and the role it had, and writes that row under the actor's key; a patch that is not
  accepted raises and leaves the store as it was. When the actor is a stored user, the
  roles of the stored users are the same after the patch as before.
\<close>

theorem own_profile_role_read_only:
  assumes "actor r = Some usr"
  shows "patch_own_profile st r (d\<lparr>ud_role := f\<rparr>) = patch_own_profile st r d
       \<and> (patch_accepted st usr d
            \<longrightarrow> patch_own_profile st r d =
                  (Inr (200, patched_user usr d),
                   st\<lparr>users := map (\<lambda>x. if pk x = pk usr then patched_user usr d else x)
                                  (users st)\<rparr>)
                \<and> role (patched_user usr d) = role usr)
       \<and> (\<not> patch_accepted st usr d
            \<longrightarrow> (\<exists>e. patch_own_profile st r d = (Inl e, st)))
       \<and> (usr \<in> set (users st) \<and> distinct (map pk (users st))
            \<longrightarrow> map role (users (snd (patch_own_profile st r d))) = map role (users st))"
proof -
  have ign: "patch_own_profile st r (d\<lparr>ud_role := f\<rparr>) = patch_own_profile st r d"
    using assms by (simp add: patch_own_profile_def UserEditSerializer_ignores_role)
  note cases = patch_own_profile_cases[OF assms, of st d]
  have acc: "patch_accepted st usr d
            \<longrightarrow> patch_own_profile st r d =
                  (Inr (200, patched_user usr d),
                   st\<lparr>users := map (\<lambda>x. if pk x = pk usr then patched_user usr d else x)
                                  (users st)\<rparr>)
                \<and> role (patched_user usr d) = role usr"
    using cases by (simp add: patched_user_frame)
  have rej: "\<not> patch_accepted st usr d
            \<longrightarrow> (\<exists>e. patch_own_profile st r d = (Inl e, st))"
    using cases by simp
  have roles: "usr \<in> set (users st) \<and> distinct (map pk (users st))
            \<longrightarrow> map role (users (snd (patch_own_profile st r d))) = map role (users st)"
  proof (cases "patch_accepted st usr d")
    case True
    with acc have "users (snd (patch_own_profile st r d))
        = map (\<lambda>x. if pk x = pk usr then patched_user usr d else x) (users st)"
      by simp
    then show ?thesis
      using map_role_unchanged[of usr "users st" "patched_user usr d"]
      by (simp add: patched_user_frame)
  next
    case False
    with rej obtain e where "patch_own_profile st r d = (Inl e, st)" by blast
    then show ?thesis by simp
  qed
  from ign acc rej roles show ?thesis by blast
qed

theorem own_profile_role_read_only_witness:
  "patch_own_profile store0 \<lparr>request_method = PATCH, actor = Some alice\<rparr>
      \<lparr>ud_username = Absent, ud_email = Absent, ud_first_name = Absent,
       ud_last_name = Absent, ud_bio = Absent, ud_role = Given ''admin''\<rparr>
     = (Inr (200, alice), store0)
   \<and> role alice = ''user''
   \<and> patch_own_profile store0 \<lparr>request_method = PATCH, actor = Some alice\<rparr>
      \<lparr>ud_username = Absent, ud_email = Absent, ud_first_name = Absent,
       ud_last_name = Absent, ud_bio = Given (Some ''hi''), ud_role = Given ''admin''\<rparr>
     = (Inr (200, alice\<lparr>bio := Some ''hi''\<rparr>),
        store0\<lparr>users := [alice\<lparr>bio := Some ''hi''\<rparr>, bob, carol, dave]\<rparr>)
   \<and> role (alice\<lparr>bio := Some ''hi''\<rparr>) = ''user''"
proof -
  let ?r = "\<lparr>request_method = PATCH, actor = Some alice\<rparr>"
  let ?d1 = "\<lparr>ud_username = Absent, ud_email = Absent, ud_first_name = Absent,
       ud_last_name = Absent, ud_bio = Absent, ud_role = Given ''admin''\<rparr>"
  let ?d2 = "\<lparr>ud_username = Absent, ud_email = Absent, ud_first_name = Absent,
       ud_last_name = Absent, ud_bio = Given (Some ''hi''), ud_role = Given ''admin''\<rparr>"
  have a: "actor ?r = Some alice" by simp
  have pks: "pk alice = 1" "pk bob = 2" "pk carol = 3" "pk dave = 4"
    by (simp_all add: alice_def bob_def carol_def dave_def)
  have p1: "patched_user alice ?d1 = alice"
    by (simp add: patched_user_def)
  have p2: "patched_user alice ?d2 = alice\<lparr>bio := Some ''hi''\<rparr>"
    by (simp add: patched_user_def)
  have others: "map username (filter (\<lambda>x. pk x \<noteq> pk alice) (users store0))
      = [''bob'', ''carol'', ''dave'']"
    by (simp add: store0_def pks) (simp add: bob_def carol_def dave_def)
  have name: "username alice = ''alice''" "username (alice\<lparr>bio := Some ''hi''\<rparr>) = ''alice''"
    by (simp_all add: alice_def)
  have low: "lower ''alice'' \<noteq> ''me''" by (simp add: lower_def)
  have acc1: "patch_accepted store0 alice ?d1"
    unfolding patch_accepted_def p1 others name using low by simp
  have acc2: "patch_accepted store0 alice ?d2"
    unfolding patch_accepted_def p2 others name using low by simp
  have m1: "map (\<lambda>x. if pk x = pk alice then alice else x) (users store0) = users store0"
    by (simp add: store0_def pks)
  have m2: "map (\<lambda>x. if pk x = pk alice then alice\<lparr>bio := Some ''hi''\<rparr> else x) (users store0)
      = [alice\<lparr>bio := Some ''hi''\<rparr>, bob, carol, dave]"
    by (simp add: store0_def pks)
  have s0: "store0\<lparr>users := users store0\<rparr> = store0" by simp
  have ro: "role alice = ''user''" by (simp add: alice_def)
  from own_profile_role_read_only[OF a, where st = store0 and d = "?d1"] acc1
  have r1: "patch_own_profile store0 ?r ?d1 = (Inr (200, alice), store0)"
    unfolding p1 m1 s0 by blast
  from own_profile_role_read_only[OF a, where st = store0 and d = "?d2"] acc2
  have r2: "patch_own_profile store0 ?r ?d2 = (Inr (200, alice\<lparr>bio := Some ''hi''\<rparr>),
        store0\<lparr>users := [alice\<lparr>bio := Some ''hi''\<rparr>, bob, carol, dave]\<rparr>)"
    unfolding p2 m2 by blast
  from r1 r2 ro show ?thesis by simp
qed

section \<open>Titles\<close>

text \<open>
  Claim C5. A title create or update whose submitted \<^verbatim>\<open>year\<close> exceeds the current year
  fails and writes nothing: for an actor allowed to write titles (and, on update, a stored
  title) the serializer raises \<open>ValidationError\<close>, through the model validator
  \<^verbatim>\<open>max_value_current_year\<close>; a request refused before validation fails with that
  earlier error, the store unchanged as well. The validator refuses exactly the years
  above the current one: the current year itself passes.
\<close>

theorem future_year_is_refused:
  assumes "td_year d = Given y" and "current_year < y"
  shows "(check_permissions (permission_classes TitlesViewSet) r = Inr ()
            \<longrightarrow> create_title current_year default_year st r d = (Inl ValidationError, st))
       \<and> (check_permissions (permission_classes TitlesViewSet) r = Inr ()
            \<and> t \<in> set (titles st) \<and> distinct (map title_pk (titles st))
            \<longrightarrow> update_title current_year st r (title_pk t) d = (Inl ValidationError, st))
       \<and> (\<exists>e. create_title current_year default_year st r d = (Inl e, st))
       \<and> (\<exists>e. update_title current_year st r tid d = (Inl e, st))
       \<and> max_value_current_year current_year y = Inl ValidationError
       \<and> max_value_current_year current_year current_year = Inr ()"
proof -
  note v = TitlesSerializer_future_year[OF assms]
  have c1: "check_permissions (permission_classes TitlesViewSet) r = Inr ()
            \<longrightarrow> create_title current_year default_year st r d = (Inl ValidationError, st)"
    by (simp add: create_title_def v del: check_permissions.simps permission_classes.simps)
  have u1: "check_permissions (permission_classes TitlesViewSet) r = Inr ()
            \<and> t \<in> set (titles st) \<and> distinct (map title_pk (titles st))
            \<longrightarrow> update_title current_year st r (title_pk t) d = (Inl ValidationError, st)"
    using get_object_or_404_key[of title_pk "titles st" t]
    by (simp add: update_title_def v check_object_permissions_titles
        del: check_permissions.simps permission_classes.simps check_object_permissions.simps)
  have c2: "\<exists>e. create_title current_year default_year st r d = (Inl e, st)"
    by (simp add: create_title_def v split: sum.splits
        del: check_permissions.simps permission_classes.simps)
  have u2: "\<exists>e. update_title current_year st r tid d = (Inl e, st)"
    by (simp add: update_title_def v check_object_permissions_titles split: sum.splits
        del: check_permissions.simps permission_classes.simps check_object_permissions.simps)
  have m: "max_value_current_year current_year y = Inl ValidationError"
      "max_value_current_year current_year current_year = Inr ()"
    using assms(2) by (simp_all add: max_value_current_year_def MaxValueValidator_def)
  from c1 u1 c2 u2 m show ?thesis by blast
qed

theorem future_year_is_refused_witness:
  "create_title 2026 2026 store1 \<lparr>request_method = POST, actor = Some dave\<rparr>
      \<lparr>td_name = Given ''Stalker'', td_year = Given 2027, td_category = Given ''drama'',
       td_genre = Given [], td_rating = Absent, td_description = Absent\<rparr>
     = (Inl ValidationError, store1)
   \<and> update_title 2026 store1 \<lparr>request_method = PATCH, actor = Some dave\<rparr> 1
      \<lparr>td_name = Absent, td_year = Given 2027, td_category = Absent,
       td_genre = Absent, td_rating = Absent, td_description = Absent\<rparr>
     = (Inl ValidationError, store1)
   \<and> fst (create_title 2026 2026 store1 \<lparr>request_method = POST, actor = Some dave\<rparr>
      \<lparr>td_name = Given ''Stalker'', td_year = Given 2026, td_category = Given ''drama'',
       td_genre = Given [], td_rating = Absent, td_description = Absent\<rparr>)
     = Inr (201, \<lparr>title_pk = 2, name = ''Stalker'', year = 2026, category_id = Some 1,
                 genre_ids = [], rating = 10, description = None\<rparr>)"
proof -
  let ?d1 = "\<lparr>td_name = Given ''Stalker'', td_year = Given 2027, td_category = Given ''drama'',
       td_genre = Given [], td_rating = Absent, td_description = Absent\<rparr>"
  let ?d2 = "\<lparr>td_name = Absent, td_year = Given 2027, td_category = Absent,
       td_genre = Absent, td_rating = Absent, td_description = Absent\<rparr>"
  let ?d3 = "\<lparr>td_name = Given ''Stalker'', td_year = Given 2026, td_category = Given ''drama'',
       td_genre = Given [], td_rating = Absent, td_description = Absent\<rparr>"
  let ?a3 = "\<lparr>t_name = Some ''Stalker'', t_year = Some 2026, t_category = Some 1,
       t_genre = Some [], t_rating = None, t_description = None\<rparr>"
  have y1: "td_year ?d1 = Given 2027" and y2: "td_year ?d2 = Given 2027" by simp_all
  have lt: "(2026::int) < 2027" by simp
  have mem: "solaris \<in> set (titles store1)" "distinct (map title_pk (titles store1))"
      "title_pk solaris = 1"
    by (simp_all add: store1_titles solaris_def)
  have c: "create_title 2026 2026 store1 \<lparr>request_method = POST, actor = Some dave\<rparr> ?d1
      = (Inl ValidationError, store1)"
    using future_year_is_refused[OF y1 lt, of "\<lparr>request_method = POST, actor = Some dave\<rparr>"
        2026 store1] dave_may_write
    by blast
  have u: "update_title 2026 store1 \<lparr>request_method = PATCH, actor = Some dave\<rparr> 1 ?d2
      = (Inl ValidationError, store1)"
    using future_year_is_refused[OF y2 lt,
        where r = "\<lparr>request_method = PATCH, actor = Some dave\<rparr>" and st = store1
          and t = solaris] dave_may_write mem
    by metis
  have cat: "slug_related (categories store1) category_slug category_pk ''drama'' = Inr 1"
    by (simp add: store1_titles slug_related_def drama_def)
  have v: "TitlesSerializer_is_valid 2026 store1 False ?d3 = Inr ?a3"
    unfolding TitlesSerializer_is_valid_def Let_def
    by (simp add: cat run_field_def related_field_def failed_def validated_def
        MinValueValidator_def max_value_current_year_def MaxValueValidator_def)
  have row: "(set_title_attrs ?a3 (default_title 2026))
                \<lparr>title_pk := new_pk (map title_pk (titles store1))\<rparr>
      = \<lparr>title_pk = 2, name = ''Stalker'', year = 2026, category_id = Some 1,
                 genre_ids = [], rating = 10, description = None\<rparr>"
    by (simp add: set_title_attrs_def default_title_def new_pk_def store1_titles solaris_def)
  have ok: "fst (create_title 2026 2026 store1 \<lparr>request_method = POST, actor = Some dave\<rparr> ?d3)
     = Inr (201, \<lparr>title_pk = 2, name = ''Stalker'', year = 2026, category_id = Some 1,
                 genre_ids = [], rating = 10, description = None\<rparr>)"
    unfolding create_title_def dave_may_write v using row by (simp add: Let_def)
  from c u ok show ?thesis by blast
qed

section \<open>Reviews\<close>

text \<open>
  Claim C1. For a stored title and an authenticated author, a review creation (POST) with
  a text and a score that is absent or between 1 and 10 succeeds when the author has no
  review of the title: it answers 201 and appends the review, with this title, this
  author, the score (10 when none was given) and the time of the request. Any creation
  for a pair that already has a review, so any second creation after that first one,
  whatever it submits, fails with \<open>ValidationError\<close> and leaves the store, hence the
  reviews, as they were.
\<close>

theorem one_review_per_title_and_author:
  assumes "request_method r = POST" and "actor r = Some u"
    and "t \<in> set (titles st)" and "distinct (map title_pk (titles st))"
  shows "(reviewed st (title_pk t) (pk u)
            \<longrightarrow> create_review now st r (title_pk t) d = (Inl ValidationError, st))
       \<and> (\<not> reviewed st (title_pk t) (pk u) \<and> rd_text d = Given x
            \<and> (rd_score d = Absent \<or> (\<exists>s. rd_score d = Given s \<and> 1 \<le> s \<and> s \<le> 10))
            \<longrightarrow> (let row = \<lparr>review_pk = new_pk (map review_pk (reviews st)),
                              title_id = title_pk t, text_of = x, author_id = pk u,
                              score = (case rd_score d of Given s \<Rightarrow> s | _ \<Rightarrow> 10),
                              pub_date = now\<rparr>;
                      st' = st\<lparr>reviews := reviews st @ [row]\<rparr>
                  in create_review now st r (title_pk t) d = (Inr (201, row), st')
                     \<and> create_review now' st' r (title_pk t) d' = (Inl ValidationError, st')))"
proof -
  let ?row = "\<lparr>review_pk = new_pk (map review_pk (reviews st)),
                              title_id = title_pk t, text_of = x, author_id = pk u,
                              score = (case rd_score d of Given s \<Rightarrow> s | _ \<Rightarrow> 10),
                              pub_date = now\<rparr>"
  let ?st' = "st\<lparr>reviews := reviews st @ [?row]\<rparr>"
  have second: "reviewed st (title_pk t) (pk u)
            \<longrightarrow> create_review now st r (title_pk t) d = (Inl ValidationError, st)"
    using create_review_second[OF assms] by simp
  have t': "t \<in> set (titles ?st')" "distinct (map title_pk (titles ?st'))"
    using assms(3,4) by simp_all
  have "reviewed ?st' (title_pk t) (pk u)"
    by (simp add: reviewed_def)
  from create_review_second[OF assms(1,2) t' this]
  have again: "create_review now' ?st' r (title_pk t) d' = (Inl ValidationError, ?st')" .
  have first: "\<not> reviewed st (title_pk t) (pk u) \<and> rd_text d = Given x
            \<and> (rd_score d = Absent \<or> (\<exists>s. rd_score d = Given s \<and> 1 \<le> s \<and> s \<le> 10))
            \<longrightarrow> create_review now st r (title_pk t) d = (Inr (201, ?row), ?st')"
    using create_review_first[OF assms] by blast
  from second first again show ?thesis
    unfolding Let_def by blast
qed

theorem one_review_per_title_and_author_witness:
  "create_review 102 store1 \<lparr>request_method = POST, actor = Some carol\<rparr> 1
      \<lparr>rd_text = Given ''fine'', rd_score = Given 9\<rparr>
     = (Inr (201, \<lparr>review_pk = 3, title_id = 1, text_of = ''fine'', author_id = 3,
                   score = 9, pub_date = 102\<rparr>),
        store1\<lparr>reviews := [review_a, review_b,
           \<lparr>review_pk = 3, title_id = 1, text_of = ''fine'', author_id = 3,
            score = 9, pub_date = 102\<rparr>]\<rparr>)
   \<and> create_review 103
        (store1\<lparr>reviews := [review_a, review_b,
           \<lparr>review_pk = 3, title_id = 1, text_of = ''fine'', author_id = 3,
            score = 9, pub_date = 102\<rparr>]\<rparr>)
        \<lparr>request_method = POST, actor = Some carol\<rparr> 1
        \<lparr>rd_text = Given ''again'', rd_score = Given 2\<rparr>
     = (Inl ValidationError,
        store1\<lparr>reviews := [review_a, review_b,
           \<lparr>review_pk = 3, title_id = 1, text_of = ''fine'', author_id = 3,
            score = 9, pub_date = 102\<rparr>]\<rparr>)
   \<and> create_review 103 store1 \<lparr>request_method = POST, actor = Some alice\<rparr> 1
        \<lparr>rd_text = Given ''again'', rd_score = Given 2\<rparr>
     = (Inl ValidationError, store1)"
proof -
  let ?rc = "\<lparr>request_method = POST, actor = Some carol\<rparr>"
  let ?ra = "\<lparr>request_method = POST, actor = Some alice\<rparr>"
  let ?d = "\<lparr>rd_text = Given ''fine'', rd_score = Given 9\<rparr>"
  let ?d' = "\<lparr>rd_text = Given ''again'', rd_score = Given 2\<rparr>"
  have rq: "request_method ?rc = POST" "actor ?rc = Some carol"
      "request_method ?ra = POST" "actor ?ra = Some alice" by simp_all
  have mem: "solaris \<in> set (titles store1)" "distinct (map title_pk (titles store1))"
    by (simp_all add: store1_titles)
  have keys: "title_pk solaris = 1" "pk carol = 3" "pk alice = 1"
    by (simp_all add: solaris_def carol_def alice_def)
  have rows: "map title_id (reviews store1) = [1, 1]" "map author_id (reviews store1) = [1, 2]"
      "map review_pk (reviews store1) = [1, 2]"
    by (simp_all add: store1_reviews review_a_def review_b_def)
  have pairs: "map (\<lambda>rv. (title_id rv, author_id rv)) (reviews store1) = [(1, 1), (1, 2)]"
    by (simp add: store1_reviews review_a_def review_b_def)
  have rev_iff: "reviewed store1 tid aid \<longleftrightarrow> (tid, aid) \<in> set (map (\<lambda>rv. (title_id rv, author_id rv)) (reviews store1))"
    for tid aid
    by (auto simp: reviewed_iff)
  have nc: "\<not> reviewed store1 (title_pk solaris) (pk carol)"
    unfolding rev_iff pairs keys by simp
  have ya: "reviewed store1 (title_pk solaris) (pk alice)"
    unfolding rev_iff pairs keys by simp
  have pkn: "new_pk (map review_pk (reviews store1)) = 3"
    unfolding rows by (simp add: new_pk_def)
  have pay: "rd_text ?d = Given ''fine''" "rd_score ?d = Given 9" by simp_all
  have ok: "rd_score ?d = Absent \<or> (\<exists>s. rd_score ?d = Given s \<and> 1 \<le> s \<and> s \<le> 10)"
    by simp
  note T = one_review_per_title_and_author[OF rq(1,2) mem, where now = 102 and d = "?d"
      and x = "''fine''" and now' = 103 and d' = "?d'"]
  from T nc pay(1) ok
  have both: "create_review 102 store1 ?rc (title_pk solaris) ?d
     = (Inr (201, \<lparr>review_pk = 3, title_id = 1, text_of = ''fine'', author_id = 3,
                   score = 9, pub_date = 102\<rparr>),
        store1\<lparr>reviews := reviews store1 @ [
           \<lparr>review_pk = 3, title_id = 1, text_of = ''fine'', author_id = 3,
            score = 9, pub_date = 102\<rparr>]\<rparr>)
     \<and> create_review 103 (store1\<lparr>reviews := reviews store1 @ [
           \<lparr>review_pk = 3, title_id = 1, text_of = ''fine'', author_id = 3,
            score = 9, pub_date = 102\<rparr>]\<rparr>) ?rc (title_pk solaris) ?d'
     = (Inl ValidationError, store1\<lparr>reviews := reviews store1 @ [
           \<lparr>review_pk = 3, title_id = 1, text_of = ''fine'', author_id = 3,
            score = 9, pub_date = 102\<rparr>]\<rparr>)"
    unfolding Let_def pkn keys by simp
  from one_review_per_title_and_author[OF rq(3,4) mem, where now = 103 and d = "?d'"] ya
  have al: "create_review 103 store1 ?ra (title_pk solaris) ?d' = (Inl ValidationError, store1)"
    by blast
  from both al show ?thesis
    unfolding keys store1_reviews by simp
qed

section \<open>Rating on the read path\<close>

text \<open>
  Claim C10, as the code has it. For every title, the rating the read serializer writes is
  null when the title has no reviews and otherwise the average of the scores of its
  reviews cut off to an integer: the sum of the scores divided by their number, the
  fraction dropped towards zero. It is computed from the annotation, the average itself,
  and does not depend on the stored \<^verbatim>\<open>rating\<close> of the title. List and retrieve, open
  to every actor, answer 200 with what this serializer writes.
\<close>

theorem read_path_rating:
  "rep_rating (ReadOnlyTitleSerializer st t) =
     (if scores_of st t = [] then None
      else Some (truncated_quotient (sum_list (scores_of st t)) (int (length (scores_of st t)))))
   \<and> reviews__score__avg st t =
     (if scores_of st t = [] then None
      else Some (of_int (sum_list (scores_of st t)) / of_nat (length (scores_of st t))))
   \<and> rep_rating (ReadOnlyTitleSerializer st (t\<lparr>rating := x\<rparr>))
       = rep_rating (ReadOnlyTitleSerializer st t)
   \<and> (request_method r \<in> set SAFE_METHODS
        \<longrightarrow> list_titles st r = Inr (200, map (ReadOnlyTitleSerializer st) (titles st)))
   \<and> (request_method r \<in> set SAFE_METHODS \<and> t \<in> set (titles st)
        \<and> distinct (map title_pk (titles st))
        \<longrightarrow> retrieve_title st r (title_pk t) = Inr (200, ReadOnlyTitleSerializer st t))"
proof -
  have frame: "rep_rating (ReadOnlyTitleSerializer st (t\<lparr>rating := x\<rparr>))
       = rep_rating (ReadOnlyTitleSerializer st t)"
    by (simp add: ReadOnlyTitleSerializer_def reviews__score__avg_def)
  have l: "request_method r \<in> set SAFE_METHODS
        \<longrightarrow> list_titles st r = Inr (200, map (ReadOnlyTitleSerializer st) (titles st))"
    using safe_may_read[of r]
    by (simp add: list_titles_def del: check_permissions.simps permission_classes.simps)
  have g: "request_method r \<in> set SAFE_METHODS \<and> t \<in> set (titles st)
        \<and> distinct (map title_pk (titles st))
        \<longrightarrow> retrieve_title st r (title_pk t) = Inr (200, ReadOnlyTitleSerializer st t)"
    using safe_may_read[of r] get_object_or_404_key[of title_pk "titles st" t]
    by (simp add: retrieve_title_def del: check_permissions.simps permission_classes.simps)
  have a: "reviews__score__avg st t =
     (if scores_of st t = [] then None
      else Some (of_int (sum_list (scores_of st t)) / of_nat (length (scores_of st t))))"
    by (simp add: reviews__score__avg_def Avg_def scores_of_def)
  from rep_rating_scores[of st t] a frame l g show ?thesis by blast
qed

theorem read_path_rating_witness:
  "retrieve_title store1 \<lparr>request_method = GET, actor = None\<rparr> 1
     = Inr (200, \<lparr>rep_id = 1, rep_name = ''Solaris'', rep_year = 1972,
                  rep_rating = Some 7, rep_description = None\<rparr>)
   \<and> list_titles store1 \<lparr>request_method = GET, actor = None\<rparr>
     = Inr (200, [\<lparr>rep_id = 1, rep_name = ''Solaris'', rep_year = 1972,
                   rep_rating = Some 7, rep_description = None\<rparr>])
   \<and> rep_rating (ReadOnlyTitleSerializer store0 solaris) = None
   \<and> rating solaris = 10"
proof -
  let ?r = "\<lparr>request_method = GET, actor = None\<rparr>"
  have safe: "request_method ?r \<in> set SAFE_METHODS" by (simp add: SAFE_METHODS_def)
  have mem: "solaris \<in> set (titles store1)" "distinct (map title_pk (titles store1))"
    by (simp_all add: store1_titles)
  have key: "title_pk solaris = 1" by (simp add: solaris_def)
  have q: "truncated_quotient 15 2 = 7" by (simp add: truncated_quotient_def)
  note T1 = read_path_rating[of store1 solaris _ ?r]
  from T1 have r1: "rep_rating (ReadOnlyTitleSerializer store1 solaris) = Some 7"
    unfolding store1_scores using q by simp
  have rep: "ReadOnlyTitleSerializer store1 solaris =
      \<lparr>rep_id = 1, rep_name = ''Solaris'', rep_year = 1972,
       rep_rating = Some 7, rep_description = None\<rparr>"
    using solaris_representation[of store1] r1 by simp
  from T1 safe mem have "retrieve_title store1 ?r (title_pk solaris)
      = Inr (200, ReadOnlyTitleSerializer store1 solaris)" by blast
  then have g: "retrieve_title store1 ?r 1 = Inr (200, \<lparr>rep_id = 1, rep_name = ''Solaris'',
      rep_year = 1972, rep_rating = Some 7, rep_description = None\<rparr>)"
    unfolding key rep .
  from T1 safe have "list_titles store1 ?r
      = Inr (200, map (ReadOnlyTitleSerializer store1) (titles store1))" by blast
  then have l: "list_titles store1 ?r = Inr (200, [\<lparr>rep_id = 1, rep_name = ''Solaris'',
      rep_year = 1972, rep_rating = Some 7, rep_description = None\<rparr>])"
    unfolding store1_titles using rep by simp
  from read_path_rating[of store0 solaris]
  have n: "rep_rating (ReadOnlyTitleSerializer store0 solaris) = None"
    unfolding store0_scores by simp
  have "rating solaris = 10" by (simp add: solaris_def)
  with g l n show ?thesis by simp
qed

text \<open>
  The claim C10 fails as stated: it says that the rating returned equals the average of
  the scores. The title \<^verbatim>\<open>Solaris\<close> has two reviews, scored 7 and 8; their average is
  15/2 and the rating returned is 7.
\<close>

theorem rating_is_not_the_average_counterexample:
  "scores_of store1 solaris = [7, 8]
   \<and> reviews__score__avg store1 solaris = Some (15 / 2)
   \<and> retrieve_title store1 \<lparr>request_method = GET, actor = None\<rparr> 1
     = Inr (200, \<lparr>rep_id = 1, rep_name = ''Solaris'', rep_year = 1972,
                  rep_rating = Some 7, rep_description = None\<rparr>)
   \<and> (of_int 7 :: rat) \<noteq> 15 / 2"
proof -
  let ?r = "\<lparr>request_method = GET, actor = None\<rparr>"
  have sc: "map score (filter (\<lambda>rv. title_id rv = title_pk solaris) (reviews store1)) = [7, 8]"
    using store1_scores by (simp add: scores_of_def)
  have avg: "reviews__score__avg store1 solaris = Some (15 / 2)"
    unfolding reviews__score__avg_def sc by (simp add: Avg_def)
  have tr: "IntegerField_to_representation (15 / 2) = 7"
    using IntegerField_quotient[of 15 2] by (simp add: truncated_quotient_def)
  have rep: "ReadOnlyTitleSerializer store1 solaris =
      \<lparr>rep_id = 1, rep_name = ''Solaris'', rep_year = 1972,
       rep_rating = Some 7, rep_description = None\<rparr>"
    by (simp add: ReadOnlyTitleSerializer_def avg tr) (simp add: solaris_def)
  have "get_object_or_404 (titles store1) (\<lambda>t. title_pk t = 1) = Inr solaris"
    by (simp add: get_object_or_404_def store1_titles solaris_def)
  then have g: "retrieve_title store1 ?r 1 = Inr (200, \<lparr>rep_id = 1, rep_name = ''Solaris'',
      rep_year = 1972, rep_rating = Some 7, rep_description = None\<rparr>)"
    by (simp add: retrieve_title_def SAFE_METHODS_def rep)
  have ne: "(of_int 7 :: rat) \<noteq> 15 / 2" by simp
  from store1_scores avg g ne show ?thesis by blast
qed


end
